theory Spec2Isabelle
  imports Main "HOL-Library.Sublist"
begin

section \<open>Values, exceptions and the outside world\<close>

text \<open>
  The agent of \<^verbatim>\<open>career_agent/agent.py\<close> talks to six things that are not its own code:
  the JSON library, the interpreter (its call mechanism, \<^verbatim>\<open>str\<close> and \<^verbatim>\<open>str.strip\<close>), the
  standard output, the HTTP library, the language model and the file system. Each is a
  field of the record \<open>env\<close> below, so every definition of this theory
  reads like the source function it embeds and every theorem holds for all behaviours of
  these collaborators.

  A value decoded by \<^verbatim>\<open>json.loads\<close> is a \<open>json\<close>; a dict is the list of its items in
  insertion order, a float is kept as its printed text.
\<close>

datatype json =
    JNull
  | JBool bool
  | JInt int
  | JFloat string
  | JStr string
  | JArr "json list"
  | JObj "(string \<times> json) list"

text \<open>
  The exceptions the source distinguishes in its \<^verbatim>\<open>except\<close> clauses, each with its message
  (\<^verbatim>\<open>str(e)\<close>). \<open>UnicodeEncodeError\<close> is what \<^verbatim>\<open>print\<close> raises on a text the standard
  output cannot encode; \<open>OtherError\<close> is any exception that is an \<^verbatim>\<open>Exception\<close> but none
  of the four named classes.
\<close>

datatype exn =
    TypeError string
  | JSONDecodeError string
  | RequestException string
  | UnicodeEncodeError string
  | OtherError string

fun exn_text :: "exn \<Rightarrow> string" where
  "exn_text (TypeError m) = m"
| "exn_text (JSONDecodeError m) = m"
| "exn_text (RequestException m) = m"
| "exn_text (UnicodeEncodeError m) = m"
| "exn_text (OtherError m) = m"

text \<open>Why the call \<^verbatim>\<open>func(**args)\<close> can fail before the body of \<^verbatim>\<open>func\<close> runs.\<close>

datatype call_fault =
    NotAMapping json
  | UnexpectedKeyword string
  | MissingArgument string

text \<open>What \<^verbatim>\<open>requests.post\<close> does: it returns, or it raises an exception of any class.\<close>

datatype post_outcome = Delivered | Raised exn

text \<open>What is found at a path when it is read as text, and when it is opened as a PDF.\<close>

datatype text_source = NoText | TextUnreadable string | Text string

datatype pdf_source =
    NoPdf
  | PdfUnreadable string
  | PdfPages "(string + string option) list"
    \<comment> \<open>per page, what \<^verbatim>\<open>extract_text()\<close> does: \<open>Inl e\<close> raises, \<open>Inr None\<close> returns \<^verbatim>\<open>None\<close>\<close>

record tool_call =
  call_id :: string
  fn_name :: string
  fn_arguments :: "string option"

record message =
  role :: string
  content :: string
  tool_calls :: "tool_call list option"
  tool_call_id :: "string option"

record choice =
  finish_reason :: string
  msg_content :: "string option"
  msg_tool_calls :: "tool_call list option"

record env =
  json_loads :: "string \<Rightarrow> exn + json"
  json_dumps :: "json \<Rightarrow> string"
  str_of :: "json \<Rightarrow> string"
  str_strip :: "string \<Rightarrow> string"
  call_fault_text :: "string \<Rightarrow> call_fault \<Rightarrow> string"
  unprintable :: "string \<Rightarrow> string option"
  PUSHOVER_USER :: "string option"
  PUSHOVER_TOKEN :: "string option"
  requests_post :: "nat \<Rightarrow> string \<Rightarrow> post_outcome"
  completions_create :: "message list \<Rightarrow> exn + choice"
  path_text :: "string \<Rightarrow> text_source"
  path_pdf :: "string \<Rightarrow> pdf_source"

text \<open>
  The mutable world: the lines printed so far, the messages handed to
  \<^verbatim>\<open>requests.post\<close> so far, the message sequences sent to the model so far, and the heap
  of list objects (an address is an index into \<open>heap\<close>). The lists \<^verbatim>\<open>history\<close> and
  \<^verbatim>\<open>messages\<close> of \<^verbatim>\<open>chat\<close> live in the heap, because Python passes and mutates them by
  reference.
\<close>

record world =
  stdout :: "string list"
  outbox :: "string list"
  model_log :: "message list list"
  heap :: "message list list"

text \<open>
  \<^verbatim>\<open>print\<close> writes a line, or raises \<^verbatim>\<open>UnicodeEncodeError\<close> with message \<open>m\<close> when the
  standard output cannot encode the text (\<open>unprintable e text = Some m\<close>): a string
  decoded by \<^verbatim>\<open>json.loads\<close> may hold such characters, a lone surrogate for one. The three
  calls of \<^verbatim>\<open>print\<close> whose text interpolates what the model sent (the notification of
  \<^verbatim>\<open>push\<close> and the two log lines of \<^verbatim>\<open>handle_tool_calls\<close>) are \<open>print\<close>. The other five
  calls (the warning of \<^verbatim>\<open>push\<close> and the four warnings of the two file readers) print no
  text of the conversation: an ASCII literal, one of the two constant paths and the
  message of an exception raised by a library. These lines are assumed printable: the
  calls are \<open>print_line\<close>, the effect of a \<^verbatim>\<open>print\<close> that returns.
\<close>

definition print_line :: "string \<Rightarrow> world \<Rightarrow> world" where
  "print_line line w = w\<lparr>stdout := stdout w @ [line]\<rparr>"

definition print :: "env \<Rightarrow> string \<Rightarrow> world \<Rightarrow> (exn + unit) \<times> world" where
  "print e line w =
     (case unprintable e line of
        None \<Rightarrow> (Inr (), print_line line w)
      | Some m \<Rightarrow> (Inl (UnicodeEncodeError m), w))"

definition truthy :: "string option \<Rightarrow> bool" where
  "truthy v = (case v of None \<Rightarrow> False | Some s \<Rightarrow> s \<noteq> [])"

text \<open>An interpolation \<^verbatim>\<open>{v}\<close> in an f-string: a \<^verbatim>\<open>str\<close> is itself, anything else is \<^verbatim>\<open>str(v)\<close>.\<close>

definition fmt :: "env \<Rightarrow> json \<Rightarrow> string" where
  "fmt e v = (case v of JStr s \<Rightarrow> s | _ \<Rightarrow> str_of e v)"

definition PROFILE_PDF :: string where
  "PROFILE_PDF = ''me/profile.pdf''"

definition SUMMARY_TXT :: string where
  "SUMMARY_TXT = ''me/summary.txt''"

definition NAME :: string where
  "NAME = ''Carlos Vallejo''"

section \<open>Utilities\<close>

text \<open>
  \<^verbatim>\<open>push\<close>: the first \<^verbatim>\<open>print\<close> is outside the \<^verbatim>\<open>try\<close>, so what it raises leaves the
  function; of what \<^verbatim>\<open>requests.post\<close> raises, only a \<^verbatim>\<open>RequestException\<close> is caught.
\<close>

definition push :: "env \<Rightarrow> world \<Rightarrow> string \<Rightarrow> (exn + unit) \<times> world" where
  "push e w message =
     (case print e (''[Push] '' @ message) w of
        (Inl x, w') \<Rightarrow> (Inl x, w')
      | (Inr _, w1) \<Rightarrow>
          if \<not> (truthy (PUSHOVER_USER e) \<and> truthy (PUSHOVER_TOKEN e)) then (Inr (), w1)
          else
            (let w2 = w1\<lparr>outbox := outbox w1 @ [message]\<rparr> in
             case requests_post e (length (outbox w1)) message of
               Delivered \<Rightarrow> (Inr (), w2)
             | Raised (RequestException m) \<Rightarrow>
                 (Inr (), print_line (''[Push][WARN] Failed to send pushover: '' @ m) w2)
             | Raised x \<Rightarrow> (Inl x, w2)))"

fun join :: "string \<Rightarrow> string list \<Rightarrow> string" where
  "join sep [] = []"
| "join sep [x] = x"
| "join sep (x # y # ys) = x @ sep @ join sep (y # ys)"

text \<open>
  The page loop of \<^verbatim>\<open>read_pdf_text\<close>: the texts collected before the first page that
  raises are kept, and the exception is reported.
\<close>

fun pdf_pages :: "string list \<Rightarrow> (string + string option) list \<Rightarrow> string list \<times> string option" where
  "pdf_pages text_all [] = (text_all, None)"
| "pdf_pages text_all (Inl m # pages) = (text_all, Some m)"
| "pdf_pages text_all (Inr page_text # pages) =
     pdf_pages (text_all @ [case page_text of None \<Rightarrow> [] | Some t \<Rightarrow> t]) pages"

definition read_pdf_text :: "env \<Rightarrow> world \<Rightarrow> string \<Rightarrow> string \<times> world" where
  "read_pdf_text e w path =
     (case path_pdf e path of
        NoPdf \<Rightarrow> ([], print_line (''[IO][WARN] PDF not found at: '' @ path) w)
      | PdfUnreadable m \<Rightarrow>
          (str_strip e (join ''\<newline>'' []),
           print_line (''[PDF][WARN] Could not read '' @ path @ '': '' @ m) w)
      | PdfPages pages \<Rightarrow>
          (case pdf_pages [] pages of
             (text_all, None) \<Rightarrow> (str_strip e (join ''\<newline>'' text_all), w)
           | (text_all, Some m) \<Rightarrow>
               (str_strip e (join ''\<newline>'' text_all),
                print_line (''[PDF][WARN] Could not read '' @ path @ '': '' @ m) w)))"

definition read_text_file :: "env \<Rightarrow> world \<Rightarrow> string \<Rightarrow> string \<times> world" where
  "read_text_file e w path =
     (case path_text e path of
        NoText \<Rightarrow> ([], print_line (''[IO][WARN] Text file not found at: '' @ path) w)
      | Text t \<Rightarrow> (str_strip e t, w)
      | TextUnreadable m \<Rightarrow>
          ([], print_line (''[IO][WARN] Could not read '' @ path @ '': '' @ m) w))"

section \<open>Tool implementations\<close>

definition recorded_ok :: json where
  "recorded_ok = JObj [(''recorded'', JStr ''ok'')]"

definition record_user_details ::
  "env \<Rightarrow> world \<Rightarrow> json \<Rightarrow> json \<Rightarrow> json \<Rightarrow> (exn + json) \<times> world" where
  "record_user_details e w email name notes =
     (case push e w (''Recording interest from '' @ fmt e name @ '' with email ''
                      @ fmt e email @ '' and notes '' @ fmt e notes) of
        (Inl x, w') \<Rightarrow> (Inl x, w')
      | (Inr _, w') \<Rightarrow> (Inr recorded_ok, w'))"

definition record_unknown_question :: "env \<Rightarrow> world \<Rightarrow> json \<Rightarrow> (exn + json) \<times> world" where
  "record_unknown_question e w question =
     (case push e w (''Recording '' @ [CHR 0x27] @ fmt e question @ [CHR 0x27]
                      @ '' asked that I couldn't answer'') of
        (Inl x, w') \<Rightarrow> (Inl x, w')
      | (Inr _, w') \<Rightarrow> (Inr recorded_ok, w'))"

datatype tool = Record_user_details | Record_unknown_question

definition TOOL_DISPATCH :: "string \<rightharpoonup> tool" where
  "TOOL_DISPATCH =
     [''record_user_details'' \<mapsto> Record_user_details,
      ''record_unknown_question'' \<mapsto> Record_unknown_question]"

text \<open>
  The call \<^verbatim>\<open>func(**args)\<close>. The interpreter binds the items of \<^verbatim>\<open>args\<close> to the
  parameters of \<^verbatim>\<open>func\<close> before the body runs: \<^verbatim>\<open>args\<close> must be a mapping, the first key
  that names no parameter is refused, then a parameter without default that got no value
  is refused; a parameter with a default that got no value takes the default. Each
  refusal is a \<^verbatim>\<open>TypeError\<close>.
\<close>

definition kwarg :: "(string \<times> json) list \<Rightarrow> string \<Rightarrow> json \<Rightarrow> json" where
  "kwarg kvs k dflt = (case map_of kvs k of None \<Rightarrow> dflt | Some v \<Rightarrow> v)"

fun call :: "env \<Rightarrow> world \<Rightarrow> tool \<Rightarrow> json \<Rightarrow> (exn + json) \<times> world" where
  "call e w Record_user_details (JObj kvs) =
     (case find (\<lambda>k. k \<notin> {''email'', ''name'', ''notes''}) (map fst kvs) of
        Some k \<Rightarrow>
          (Inl (TypeError (call_fault_text e ''record_user_details'' (UnexpectedKeyword k))), w)
      | None \<Rightarrow>
          (case map_of kvs ''email'' of
             None \<Rightarrow>
               (Inl (TypeError (call_fault_text e ''record_user_details''
                                  (MissingArgument ''email''))), w)
           | Some email \<Rightarrow>
               record_user_details e w email
                 (kwarg kvs ''name'' (JStr ''Name not provided''))
                 (kwarg kvs ''notes'' (JStr ''not provided''))))"
| "call e w Record_unknown_question (JObj kvs) =
     (case find (\<lambda>k. k \<notin> {''question''}) (map fst kvs) of
        Some k \<Rightarrow>
          (Inl (TypeError (call_fault_text e ''record_unknown_question''
                             (UnexpectedKeyword k))), w)
      | None \<Rightarrow>
          (case map_of kvs ''question'' of
             None \<Rightarrow>
               (Inl (TypeError (call_fault_text e ''record_unknown_question''
                                  (MissingArgument ''question''))), w)
           | Some question \<Rightarrow> record_unknown_question e w question))"
| "call e w Record_user_details args =
     (Inl (TypeError (call_fault_text e ''record_user_details'' (NotAMapping args))), w)"
| "call e w Record_unknown_question args =
     (Inl (TypeError (call_fault_text e ''record_unknown_question'' (NotAMapping args))), w)"

section \<open>Prompt assembly\<close>

definition build_system_prompt :: "string \<Rightarrow> string \<Rightarrow> string \<Rightarrow> string" where
  "build_system_prompt name summary linkedin_text =
     ''You are acting as '' @ name @ ''. You are answering questions on '' @ name
       @ '''s website, ''
     @ ''particularly questions related to '' @ name
       @ '''s career, background, skills and experience. ''
     @ ''Your responsibility is to represent '' @ name
       @ '' for interactions on the website as faithfully as possible. ''
     @ ''You are given a summary of '' @ name
       @ '''s background and LinkedIn profile which you can use to answer questions. ''
     @ ''Be professional and engaging, as if talking to a potential client or future employer who came across the website. ''
     @ ''If you don't know the answer to any question, use your record_unknown_question tool to record the question that you couldn't answer, ''
     @ ''even if it's about something trivial or unrelated to career. ''
     @ ''If the user is engaging in discussion, try to steer them towards getting in touch via email; ask for their email and name ''
     @ ''and record it using your record_user_details tool. ''
     @ ''Before calling the record_user_details tool, ask for the user's email address and name together.''
     @ ''\<newline>\<newline>## Summary:\<newline>'' @ summary
       @ ''\<newline>\<newline>## LinkedIn Profile:\<newline>'' @ linkedin_text @ ''\<newline>\<newline>''
     @ ''With this context, please chat with the user, always staying in character as ''
       @ name @ ''.''"

section \<open>Tool call handling\<close>

text \<open>\<^verbatim>\<open>tc.function.arguments or "{}"\<close>: an absent or empty payload is read as the empty object.\<close>

definition raw_args :: "tool_call \<Rightarrow> string" where
  "raw_args tc = (case fn_arguments tc of None \<Rightarrow> ''{}'' | Some s \<Rightarrow> if s = [] then ''{}'' else s)"

definition error_payload :: "string \<Rightarrow> json" where
  "error_payload m = JObj [(''error'', JStr m)]"

text \<open>
  The lookup in \<^verbatim>\<open>TOOL_DISPATCH\<close> and the guarded call: the value of the variable
  \<^verbatim>\<open>result\<close> at the end of one iteration of the loop, or the exception that leaves the
  function. The warning for an unregistered name is printed outside the \<^verbatim>\<open>try\<close>. Of what
  the call raises, the first \<^verbatim>\<open>except\<close> clause takes every \<^verbatim>\<open>TypeError\<close>, the second
  every other exception.
\<close>

definition tool_result ::
  "env \<Rightarrow> world \<Rightarrow> string \<Rightarrow> json \<Rightarrow> (exn + json) \<times> world" where
  "tool_result e w tool_name args =
     (case TOOL_DISPATCH tool_name of
        None \<Rightarrow>
          (case print e (''[Tool][WARN] No handler for tool '' @ [CHR 0x27] @ tool_name
                           @ [CHR 0x27]) w of
             (Inl x, w') \<Rightarrow> (Inl x, w')
           | (Inr _, w') \<Rightarrow> (Inr (error_payload (''unknown tool '' @ tool_name)), w'))
      | Some func \<Rightarrow>
          (case call e w func args of
             (Inr result, w') \<Rightarrow> (Inr result, w')
           | (Inl (TypeError m), w') \<Rightarrow>
               (Inr (error_payload (''bad arguments for '' @ tool_name @ '': '' @ m)), w')
           | (Inl x, w') \<Rightarrow>
               (Inr (error_payload (''tool '' @ tool_name @ '' failed: '' @ exn_text x)), w')))"

definition tool_message :: "env \<Rightarrow> tool_call \<Rightarrow> json \<Rightarrow> message" where
  "tool_message e tc result =
     \<lparr>role = ''tool'', content = json_dumps e result, tool_calls = None,
      tool_call_id = Some (call_id tc)\<rparr>"

text \<open>
  The \<^verbatim>\<open>for\<close> loop of \<^verbatim>\<open>handle_tool_calls\<close>, with the list \<^verbatim>\<open>results\<close> as accumulator.
  \<^verbatim>\<open>json.loads\<close> and the \<^verbatim>\<open>print\<close> of the log line are outside the \<^verbatim>\<open>try\<close>, so what they
  raise leaves the function.
\<close>

fun handle_tool_calls_loop ::
  "env \<Rightarrow> world \<Rightarrow> message list \<Rightarrow> tool_call list \<Rightarrow> (exn + message list) \<times> world" where
  "handle_tool_calls_loop e w results [] = (Inr results, w)"
| "handle_tool_calls_loop e w results (tc # rest) =
     (let tool_name = fn_name tc in
      case json_loads e (raw_args tc) of
        Inl x \<Rightarrow> (Inl x, w)
      | Inr args \<Rightarrow>
          (case print e (''[Tool] '' @ tool_name @ ''('' @ fmt e args @ '')'') w of
             (Inl x, w') \<Rightarrow> (Inl x, w')
           | (Inr _, w1) \<Rightarrow>
               (case tool_result e w1 tool_name args of
                  (Inl x, w') \<Rightarrow> (Inl x, w')
                | (Inr result, w') \<Rightarrow>
                    handle_tool_calls_loop e w' (results @ [tool_message e tc result]) rest)))"

definition handle_tool_calls ::
  "env \<Rightarrow> world \<Rightarrow> tool_call list \<Rightarrow> (exn + message list) \<times> world" where
  "handle_tool_calls e w tcs = handle_tool_calls_loop e w [] tcs"

section \<open>Chat loop\<close>

definition list_append :: "nat \<Rightarrow> message \<Rightarrow> world \<Rightarrow> world" where
  "list_append a m w = w\<lparr>heap := (heap w)[a := heap w ! a @ [m]]\<rparr>"

definition list_extend :: "nat \<Rightarrow> message list \<Rightarrow> world \<Rightarrow> world" where
  "list_extend a ms w = w\<lparr>heap := (heap w)[a := heap w ! a @ ms]\<rparr>"

definition system_message :: "string \<Rightarrow> message" where
  "system_message prompt =
     \<lparr>role = ''system'', content = prompt, tool_calls = None, tool_call_id = None\<rparr>"

definition user_message :: "string \<Rightarrow> message" where
  "user_message text =
     \<lparr>role = ''user'', content = text, tool_calls = None, tool_call_id = None\<rparr>"

definition assistant_message :: "string option \<Rightarrow> tool_call list \<Rightarrow> message" where
  "assistant_message text tcs =
     \<lparr>role = ''assistant'', content = (case text of None \<Rightarrow> [] | Some t \<Rightarrow> t),
      tool_calls = Some tcs, tool_call_id = None\<rparr>"

text \<open>
  One pass through the body of \<^verbatim>\<open>while True\<close>: the model is called with the list at
  address \<open>messages\<close>; the pass ends the turn (with the reply, or with the exception that
  leaves \<^verbatim>\<open>chat\<close>) or goes round again.
\<close>

datatype round_outcome = Return "exn + string" world | Continue world

definition chat_round :: "env \<Rightarrow> nat \<Rightarrow> world \<Rightarrow> round_outcome" where
  "chat_round e messages w =
     (let w1 = w\<lparr>model_log := model_log w @ [heap w ! messages]\<rparr> in
      case completions_create e (heap w ! messages) of
        Inl x \<Rightarrow> Return (Inl x) w1
      | Inr choice \<Rightarrow>
          if finish_reason choice = ''tool_calls'' then
            (let tcs = (case msg_tool_calls choice of None \<Rightarrow> [] | Some l \<Rightarrow> l) in
             case handle_tool_calls e w1 tcs of
               (Inl x, w2) \<Rightarrow> Return (Inl x) w2
             | (Inr results, w2) \<Rightarrow>
                 Continue (list_extend messages results
                             (list_append messages
                                (assistant_message (msg_content choice) tcs) w2)))
          else Return (Inr (case msg_content choice of None \<Rightarrow> [] | Some t \<Rightarrow> t)) w1)"

text \<open>
  The loop itself has no bound in the source, so it is a partial function: \<open>None\<close> is a
  turn that never returns.
\<close>

partial_function (option) chat_loop ::
  "env \<Rightarrow> nat \<Rightarrow> world \<Rightarrow> ((exn + string) \<times> world) option" where
  "chat_loop e messages w =
     (case chat_round e messages w of
        Return r w' \<Rightarrow> Some (r, w')
      | Continue w' \<Rightarrow> chat_loop e messages w')"

text \<open>
  \<^verbatim>\<open>chat(message, history)\<close>; \<open>history\<close> is the address of the caller's list. The list
  \<^verbatim>\<open>messages\<close> is a new object, at the first free address.
\<close>

definition seed :: "env \<Rightarrow> world \<Rightarrow> string \<Rightarrow> nat \<Rightarrow> nat \<times> world" where
  "seed e w message history =
     (case read_pdf_text e w PROFILE_PDF of
        (linkedin_text, w1) \<Rightarrow>
          (case read_text_file e w1 SUMMARY_TXT of
             (summary, w2) \<Rightarrow>
               (let system_prompt = build_system_prompt NAME summary linkedin_text;
                    messages = length (heap w2);
                    w3 = w2\<lparr>heap := heap w2 @ [[system_message system_prompt]]\<rparr>;
                    w4 = list_extend messages (heap w3 ! history) w3;
                    w5 = list_append messages (user_message message) w4
                in (messages, w5))))"

definition chat :: "env \<Rightarrow> world \<Rightarrow> string \<Rightarrow> nat \<Rightarrow> ((exn + string) \<times> world) option" where
  "chat e w message history =
     (case seed e w message history of (messages, w') \<Rightarrow> chat_loop e messages w')"

section \<open>Auxiliary notions for the statements\<close>

text \<open>
  A request can be served: \<^verbatim>\<open>json.loads\<close> returns on its payload, the log line can be
  printed and, when no handler has its name, so can the warning. These are the three
  statements of the loop body that stand outside the \<^verbatim>\<open>try\<close>.
\<close>

definition servable :: "env \<Rightarrow> tool_call \<Rightarrow> bool" where
  "servable e tc =
     (case json_loads e (raw_args tc) of
        Inl _ \<Rightarrow> False
      | Inr args \<Rightarrow>
          (case unprintable e (''[Tool] '' @ fn_name tc @ ''('' @ fmt e args @ '')'') of
             Some _ \<Rightarrow> False
           | None \<Rightarrow>
               (case TOOL_DISPATCH (fn_name tc) of
                  Some _ \<Rightarrow> True
                | None \<Rightarrow>
                    (case unprintable e (''[Tool][WARN] No handler for tool '' @ [CHR 0x27]
                                           @ fn_name tc @ [CHR 0x27]) of
                       Some _ \<Rightarrow> False
                     | None \<Rightarrow> True))))"

fun is_TypeError :: "exn \<Rightarrow> bool" where
  "is_TypeError (TypeError m) = True"
| "is_TypeError _ = False"

fun is_RequestException :: "exn \<Rightarrow> bool" where
  "is_RequestException (RequestException m) = True"
| "is_RequestException _ = False"

text \<open>
  The signatures of the two handlers, read off their \<^verbatim>\<open>def\<close> lines: the declared
  parameters and those without a default. Decoded arguments fit a handler when they are
  a mapping whose keys are all declared and include every required parameter.
\<close>

fun declared :: "tool \<Rightarrow> string list" where
  "declared Record_user_details = [''email'', ''name'', ''notes'']"
| "declared Record_unknown_question = [''question'']"

fun required :: "tool \<Rightarrow> string list" where
  "required Record_user_details = [''email'']"
| "required Record_unknown_question = [''question'']"

fun fits :: "tool \<Rightarrow> json \<Rightarrow> bool" where
  "fits t (JObj kvs) =
     (list_all (\<lambda>k. k \<in> set (declared t)) (map fst kvs)
      \<and> list_all (\<lambda>k. k \<in> set (map fst kvs)) (required t))"
| "fits t _ = False"

text \<open>
  The two shapes of a result payload: the success value \<^verbatim>\<open>{"recorded": "ok"}\<close> and an
  error descriptor \<^verbatim>\<open>{"error": text}\<close>.
\<close>

fun is_result_payload :: "json \<Rightarrow> bool" where
  "is_result_payload (JObj [(k, JStr v)]) = (k = ''error'' \<or> (k = ''recorded'' \<and> v = ''ok''))"
| "is_result_payload _ = False"

text \<open>
  The turn after at most \<open>n\<close> passes through the loop body: the \<open>n\<close>-fold unrolling of
  \<open>chat_loop\<close>, defined for turns that never return as well.
\<close>

fun chat_rounds :: "nat \<Rightarrow> env \<Rightarrow> nat \<Rightarrow> world \<Rightarrow> round_outcome" where
  "chat_rounds 0 e messages w = Continue w"
| "chat_rounds (Suc n) e messages w =
     (case chat_round e messages w of
        Return r w' \<Rightarrow> Return r w'
      | Continue w' \<Rightarrow> chat_rounds n e messages w')"

fun world_of :: "round_outcome \<Rightarrow> world" where
  "world_of (Return r w) = w"
| "world_of (Continue w) = w"

text \<open>The system message of a turn: built from what the two files hold when the turn starts.\<close>

definition grounded_system_message :: "env \<Rightarrow> world \<Rightarrow> message" where
  "grounded_system_message e w =
     system_message
       (build_system_prompt NAME (fst (read_text_file e w SUMMARY_TXT))
          (fst (read_pdf_text e w PROFILE_PDF)))"

section \<open>A sample environment\<close>

text \<open>
  Concrete collaborators for the examples, with a standard output encoded in UTF-8. A
  string of the model is a list of bytes; the one character of the examples that UTF-8
  cannot encode, the lone surrogate U+D800, is the three bytes \<open>surrogate\<close>, and
  \<open>escaped_surrogate\<close> is the six characters of its escape.

  \<open>sample_loads\<close> is \<^verbatim>\<open>json.loads\<close> on the payloads listed and on texts that do not begin a
  JSON value (it answers every text outside the list that way). \<open>sample_dumps\<close>,
  \<open>sample_repr\<close> and \<open>sample_strip\<close> are \<^verbatim>\<open>json.dumps\<close>, \<^verbatim>\<open>str\<close> and \<^verbatim>\<open>str.strip\<close> on ASCII text
  without control characters, with U+D800 added. \<open>sample_unprintable\<close> is what \<^verbatim>\<open>print\<close>
  raises on such text.
\<close>

definition surrogate :: string where
  "surrogate = [CHR 0xED, CHR 0xA0, CHR 0x80]"

definition escaped_surrogate :: string where
  "escaped_surrogate = [CHR 0x5C] @ ''ud800''"

definition sample_loads :: "string \<Rightarrow> exn + json" where
  \<open>sample_loads s =
     (if s = ''{}'' then Inr (JObj [])
      else if s = ''"'' @ escaped_surrogate @ ''"'' then Inr (JStr surrogate)
      else if s = ''{"email": "'' @ escaped_surrogate @ ''"}''
        then Inr (JObj [(''email'', JStr surrogate)])
      else if s = ''{"email": "ada@example.org"}''
        then Inr (JObj [(''email'', JStr ''ada@example.org'')])
      else if s = ''{"mail": "ada@example.org"}''
        then Inr (JObj [(''mail'', JStr ''ada@example.org'')])
      else if s = ''{"question": "What is your favourite colour?"}''
        then Inr (JObj [(''question'', JStr ''What is your favourite colour?'')])
      else if s = ''[1, 2]'' then Inr (JArr [JInt 1, JInt 2])
      else Inl (JSONDecodeError ''Expecting value: line 1 column 1 (char 0)''))\<close>

fun show_nat :: "nat \<Rightarrow> string" where
  "show_nat n =
     (if n < 10 then [''0123456789'' ! n]
      else show_nat (n div 10) @ [''0123456789'' ! (n mod 10)])"

fun surrogate_at :: "nat \<Rightarrow> string \<Rightarrow> nat option" where
  "surrogate_at i (a # b # c # r) =
     (if a = CHR 0xED \<and> b = CHR 0xA0 \<and> c = CHR 0x80 then Some i
      else surrogate_at (i + 1) (b # c # r))"
| "surrogate_at i r = None"

definition refusal :: "nat \<Rightarrow> string" where
  "refusal i =
     [CHR 0x27] @ ''utf-8'' @ [CHR 0x27] @ '' codec can't encode character ''
     @ [CHR 0x27] @ escaped_surrogate @ [CHR 0x27] @ '' in position '' @ show_nat i
     @ '': surrogates not allowed''"

definition sample_unprintable :: "string \<Rightarrow> string option" where
  "sample_unprintable s =
     (case surrogate_at 0 s of None \<Rightarrow> None | Some i \<Rightarrow> Some (refusal i))"

fun escape :: "bool \<Rightarrow> string \<Rightarrow> string" where
  "escape js (a # b # c # r) =
     (if a = CHR 0xED \<and> b = CHR 0xA0 \<and> c = CHR 0x80 then escaped_surrogate @ escape js r
      else if a = CHR 0x5C \<or> (js \<and> a = CHR 0x22) then CHR 0x5C # a # escape js (b # c # r)
      else a # escape js (b # c # r))"
| "escape js (a # r) =
     (if a = CHR 0x5C \<or> (js \<and> a = CHR 0x22) then CHR 0x5C # a # escape js r
      else a # escape js r)"
| "escape js [] = []"

definition sample_isspace :: "char \<Rightarrow> bool" where
  "sample_isspace c =
     (let n = of_char c :: nat in (9 \<le> n \<and> n \<le> 13) \<or> (28 \<le> n \<and> n \<le> 32))"

definition sample_strip :: "string \<Rightarrow> string" where
  "sample_strip s = rev (dropWhile sample_isspace (rev (dropWhile sample_isspace s)))"

definition show_int :: "int \<Rightarrow> string" where
  "show_int i = (if i < 0 then ''-'' @ show_nat (nat (- i)) else show_nat (nat i))"

fun sample_dumps :: "json \<Rightarrow> string" where
  \<open>sample_dumps JNull = ''null''\<close>
| \<open>sample_dumps (JBool b) = (if b then ''true'' else ''false'')\<close>
| \<open>sample_dumps (JInt i) = show_int i\<close>
| \<open>sample_dumps (JFloat t) = t\<close>
| \<open>sample_dumps (JStr s) = ''"'' @ escape True s @ ''"''\<close>
| \<open>sample_dumps (JArr vs) = ''['' @ join '', '' (map sample_dumps vs) @ '']''\<close>
| \<open>sample_dumps (JObj kvs) =
     ''{'' @ join '', '' (map (\<lambda>kv. ''"'' @ escape True (fst kv) @ ''": '' @ sample_dumps (snd kv)) kvs)
       @ ''}''\<close>

fun sample_repr :: "json \<Rightarrow> string" where
  "sample_repr JNull = ''None''"
| "sample_repr (JBool b) = (if b then ''True'' else ''False'')"
| "sample_repr (JInt i) = show_int i"
| "sample_repr (JFloat t) = t"
| "sample_repr (JStr s) = [CHR 0x27] @ escape False s @ [CHR 0x27]"
| "sample_repr (JArr vs) = ''['' @ join '', '' (map sample_repr vs) @ '']''"
| "sample_repr (JObj kvs) =
     ''{'' @ join '', ''
              (map (\<lambda>kv. [CHR 0x27] @ escape False (fst kv) @ [CHR 0x27] @ '': ''
                           @ sample_repr (snd kv)) kvs)
       @ ''}''"

fun type_name :: "json \<Rightarrow> string" where
  "type_name JNull = ''NoneType''"
| "type_name (JBool b) = ''bool''"
| "type_name (JInt i) = ''int''"
| "type_name (JFloat t) = ''float''"
| "type_name (JStr s) = ''str''"
| "type_name (JArr vs) = ''list''"
| "type_name (JObj kvs) = ''dict''"

fun sample_fault_text :: "string \<Rightarrow> call_fault \<Rightarrow> string" where
  "sample_fault_text f (NotAMapping v) =
     f @ ''() argument after ** must be a mapping, not '' @ type_name v"
| "sample_fault_text f (UnexpectedKeyword k) =
     f @ ''() got an unexpected keyword argument '' @ [CHR 0x27] @ k @ [CHR 0x27]"
| "sample_fault_text f (MissingArgument p) =
     f @ ''() missing 1 required positional argument: '' @ [CHR 0x27] @ p @ [CHR 0x27]"

definition answer :: "string \<Rightarrow> exn + choice" where
  "answer t = Inr \<lparr>finish_reason = ''stop'', msg_content = Some t, msg_tool_calls = None\<rparr>"

definition sample_env :: env where
  "sample_env =
     \<lparr>json_loads = sample_loads, json_dumps = sample_dumps, str_of = sample_repr,
      str_strip = sample_strip, call_fault_text = sample_fault_text,
      unprintable = sample_unprintable,
      PUSHOVER_USER = Some ''user-key'', PUSHOVER_TOKEN = Some ''app-token'',
      requests_post = (\<lambda>n m. Delivered),
      completions_create = (\<lambda>ms. answer ''Happy to help.''),
      path_text = (\<lambda>p. if p = SUMMARY_TXT then Text '' Engineer and writer.\<newline>'' else NoText),
      path_pdf = (\<lambda>p. if p = PROFILE_PDF
                       then PdfPages [Inr (Some ''Carlos Vallejo''), Inr None, Inr (Some ''Skills'')]
                       else NoPdf)\<rparr>"

text \<open>A world in which the Chat Host owns one list, at address 0, holding one earlier exchange.\<close>

definition sample_history :: "message list" where
  "sample_history =
     [\<lparr>role = ''user'', content = ''Hi'', tool_calls = None, tool_call_id = None\<rparr>,
      \<lparr>role = ''assistant'', content = ''Hello!'', tool_calls = None, tool_call_id = None\<rparr>]"

definition sample_world :: world where
  "sample_world = \<lparr>stdout = [], outbox = [], model_log = [], heap = [sample_history]\<rparr>"

text \<open>The name under which \<^verbatim>\<open>TOOL_DISPATCH\<close> registers a handler is the handler's own name.\<close>

fun tool_name_of :: "tool \<Rightarrow> string" where
  "tool_name_of Record_user_details = ''record_user_details''"
| "tool_name_of Record_unknown_question = ''record_unknown_question''"

text \<open>Sample requests.\<close>

definition call_details_ok :: tool_call where
  \<open>call_details_ok =
     \<lparr>call_id = ''call_1'', fn_name = ''record_user_details'',
      fn_arguments = Some ''{"email": "ada@example.org"}''\<rparr>\<close>

definition call_details_misnamed :: tool_call where
  \<open>call_details_misnamed =
     \<lparr>call_id = ''call_2'', fn_name = ''record_user_details'',
      fn_arguments = Some ''{"mail": "ada@example.org"}''\<rparr>\<close>

definition call_unprintable :: tool_call where
  \<open>call_unprintable =
     \<lparr>call_id = ''call_7'', fn_name = ''record_user_details'',
      fn_arguments = Some (''"'' @ escaped_surrogate @ ''"'')\<rparr>\<close>

definition crashing_env :: env where
  "crashing_env =
     sample_env\<lparr>requests_post := (\<lambda>n m. Raised (OtherError ''Connection pool is closed.''))\<rparr>"

definition mistyping_env :: env where
  "mistyping_env =
     sample_env\<lparr>requests_post := (\<lambda>n m. Raised (TypeError ''expected string or bytes-like object''))\<rparr>"

definition offline_env :: env where
  "offline_env =
     sample_env\<lparr>requests_post := (\<lambda>n m. Raised (RequestException ''Read timed out.''))\<rparr>"

definition call_question :: tool_call where
  \<open>call_question =
     \<lparr>call_id = ''call_3'', fn_name = ''record_unknown_question'',
      fn_arguments = Some ''{"question": "What is your favourite colour?"}''\<rparr>\<close>

definition call_unregistered :: tool_call where
  "call_unregistered = \<lparr>call_id = ''call_4'', fn_name = ''get_weather'', fn_arguments = None\<rparr>"

definition call_garbled :: tool_call where
  \<open>call_garbled =
     \<lparr>call_id = ''call_5'', fn_name = ''record_unknown_question'',
      fn_arguments = Some ''question: What is your favourite colour?''\<rparr>\<close>

definition call_unregistered_garbled :: tool_call where
  "call_unregistered_garbled =
     \<lparr>call_id = ''call_6'', fn_name = ''get_weather'', fn_arguments = Some ''not json''\<rparr>"

definition garbling_env :: env where
  "garbling_env =
     sample_env\<lparr>completions_create := (\<lambda>ms.
        Inr \<lparr>finish_reason = ''tool_calls'', msg_content = None,
             msg_tool_calls = Some [call_details_ok, call_garbled, call_question]\<rparr>)\<rparr>"

definition inventing_env :: env where
  "inventing_env =
     sample_env\<lparr>completions_create := (\<lambda>ms.
        if length ms = 2
        then Inr \<lparr>finish_reason = ''tool_calls'', msg_content = Some ''Let me check.'',
                  msg_tool_calls = Some [call_unregistered, call_question]\<rparr>
        else answer ''Sorry, I cannot look that up.'')\<rparr>"

text \<open>
  The message sequence a turn starts from, in the words of the specification: the system
  message, then the prior history, then the new user message.
\<close>

definition seeded :: "env \<Rightarrow> world \<Rightarrow> string \<Rightarrow> nat \<Rightarrow> message list" where
  "seeded e w message history =
     grounded_system_message e w # heap w ! history @ [user_message message]"

text \<open>Models with other habits, for the examples.\<close>

definition silent_env :: env where
  "silent_env =
     sample_env\<lparr>completions_create := (\<lambda>ms.
        Inr \<lparr>finish_reason = ''stop'', msg_content = None, msg_tool_calls = None\<rparr>)\<rparr>"

definition null_calls_env :: env where
  "null_calls_env =
     sample_env\<lparr>completions_create := (\<lambda>ms.
        if length ms = 2
        then Inr \<lparr>finish_reason = ''tool_calls'', msg_content = None, msg_tool_calls = None\<rparr>
        else answer ''Done.'')\<rparr>"



definition looping_env :: env where
  "looping_env =
     sample_env\<lparr>completions_create := (\<lambda>ms.
        Inr \<lparr>finish_reason = ''tool_calls'', msg_content = None,
             msg_tool_calls = Some [call_question]\<rparr>)\<rparr>"

definition insisting_env :: env where
  "insisting_env =
     sample_env\<lparr>completions_create := (\<lambda>ms.
        Inr \<lparr>finish_reason = ''tool_calls'', msg_content = Some ''One moment.'',
             msg_tool_calls = Some [call_unregistered]\<rparr>)\<rparr>"

section \<open>Facts about the handlers and the executor\<close>

declare show_nat.simps [simp del]

lemmas sample_defs =
  sample_env_def sample_world_def sample_loads_def raw_args_def TOOL_DISPATCH_def
  call_details_ok_def call_details_misnamed_def crashing_env_def
  escaped_surrogate_def surrogate_def sample_unprintable_def refusal_def

lemma print_line_frame [simp]:
  "heap (print_line l w) = heap w" "model_log (print_line l w) = model_log w"
  "outbox (print_line l w) = outbox w"
  by (simp_all add: print_line_def)

lemma print_frame:
  "print e l w = (r, w') \<Longrightarrow>
   heap w' = heap w \<and> model_log w' = model_log w \<and> outbox w' = outbox w"
  by (auto simp: print_def split: option.splits)

lemma push_frame:
  "push e w m = (r, w') \<Longrightarrow> heap w' = heap w \<and> model_log w' = model_log w"
  by (auto simp: push_def Let_def
           split: prod.splits sum.splits post_outcome.splits exn.splits if_splits
           dest: print_frame)

lemma record_user_details_frame:
  "record_user_details e w a b c = (r, w') \<Longrightarrow> heap w' = heap w \<and> model_log w' = model_log w"
  by (auto simp: record_user_details_def split: prod.splits sum.splits dest: push_frame)

lemma record_unknown_question_frame:
  "record_unknown_question e w q = (r, w') \<Longrightarrow> heap w' = heap w \<and> model_log w' = model_log w"
  by (auto simp: record_unknown_question_def split: prod.splits sum.splits dest: push_frame)

lemma call_frame:
  "call e w t args = (r, w') \<Longrightarrow> heap w' = heap w \<and> model_log w' = model_log w"
  by (cases "(e, w, t, args)" rule: call.cases)
     (auto split: option.splits
           dest: record_user_details_frame record_unknown_question_frame)

lemma tool_result_frame:
  "tool_result e w n args = (r, w') \<Longrightarrow> heap w' = heap w \<and> model_log w' = model_log w"
  by (auto simp: tool_result_def split: option.splits prod.splits sum.splits exn.splits
           dest: call_frame print_frame)

lemma call_Inr: "call e w t args = (Inr r, w') \<Longrightarrow> r = recorded_ok"
  by (cases "(e, w, t, args)" rule: call.cases)
     (auto simp: record_user_details_def record_unknown_question_def
           split: option.splits prod.splits sum.splits)

lemma tool_result_payload:
  "tool_result e w n args = (Inr p, w') \<Longrightarrow> is_result_payload p"
  by (auto simp: tool_result_def error_payload_def recorded_ok_def
           split: option.splits prod.splits sum.splits exn.splits dest!: call_Inr)

lemma tool_result_registered:
  "TOOL_DISPATCH n = Some t \<Longrightarrow> \<exists>p w'. tool_result e w n args = (Inr p, w')"
  by (auto simp: tool_result_def split: prod.splits sum.splits exn.splits)

lemma tool_result_unknown:
  "TOOL_DISPATCH n = None \<Longrightarrow>
   unprintable e (''[Tool][WARN] No handler for tool '' @ [CHR 0x27] @ n @ [CHR 0x27]) = None \<Longrightarrow>
   tool_result e w n args =
     (Inr (error_payload (''unknown tool '' @ n)),
      print_line (''[Tool][WARN] No handler for tool '' @ [CHR 0x27] @ n @ [CHR 0x27]) w)"
  by (simp add: tool_result_def print_def)

lemma handle_loop_step:
  "json_loads e (raw_args tc) = Inr args \<Longrightarrow>
   unprintable e (''[Tool] '' @ fn_name tc @ ''('' @ fmt e args @ '')'') = None \<Longrightarrow>
   tool_result e (print_line (''[Tool] '' @ fn_name tc @ ''('' @ fmt e args @ '')'') w)
     (fn_name tc) args = (Inr r, w') \<Longrightarrow>
   handle_tool_calls_loop e w acc (tc # rest)
     = handle_tool_calls_loop e w' (acc @ [tool_message e tc r]) rest"
  by (simp add: print_def)

lemma servable_step:
  assumes "servable e tc"
  shows "\<exists>args r w'. json_loads e (raw_args tc) = Inr args
           \<and> unprintable e (''[Tool] '' @ fn_name tc @ ''('' @ fmt e args @ '')'') = None
           \<and> tool_result e (print_line (''[Tool] '' @ fn_name tc @ ''('' @ fmt e args @ '')'') w)
                (fn_name tc) args = (Inr r, w')"
proof -
  from assms obtain args where d: "json_loads e (raw_args tc) = Inr args"
    by (auto simp: servable_def split: sum.splits)
  with assms have p: "unprintable e (''[Tool] '' @ fn_name tc @ ''('' @ fmt e args @ '')'') = None"
    by (auto simp: servable_def split: option.splits)
  let ?w = "print_line (''[Tool] '' @ fn_name tc @ ''('' @ fmt e args @ '')'') w"
  have "\<exists>r w'. tool_result e ?w (fn_name tc) args = (Inr r, w')"
  proof (cases "TOOL_DISPATCH (fn_name tc)")
    case None
    with assms d p
    have "unprintable e (''[Tool][WARN] No handler for tool '' @ [CHR 0x27] @ fn_name tc
                           @ [CHR 0x27]) = None"
      by (auto simp: servable_def split: option.splits)
    from tool_result_unknown [OF None this] show ?thesis by blast
  next
    case (Some t)
    from tool_result_registered [OF this] show ?thesis .
  qed
  with d p show ?thesis by blast
qed

lemma handle_loop_servable:
  "list_all (servable e) tcs \<Longrightarrow>
   \<exists>ps w'. handle_tool_calls_loop e w acc tcs = (Inr (acc @ map2 (tool_message e) tcs ps), w')
       \<and> length ps = length tcs \<and> list_all is_result_payload ps"
proof (induction tcs arbitrary: w acc)
  case Nil
  then show ?case by simp
next
  case (Cons tc rest)
  from Cons.prems have rest: "list_all (servable e) rest" and d: "servable e tc"
    by simp_all
  from servable_step [OF d, of w] obtain args p w2 where
    dec: "json_loads e (raw_args tc) = Inr args"
    and pr: "unprintable e (''[Tool] '' @ fn_name tc @ ''('' @ fmt e args @ '')'') = None"
    and tr: "tool_result e (print_line (''[Tool] '' @ fn_name tc @ ''('' @ fmt e args @ '')'') w)
                (fn_name tc) args = (Inr p, w2)"
    by blast
  have pp: "is_result_payload p" using tool_result_payload [OF tr] .
  from Cons.IH [OF rest, of w2 "acc @ [tool_message e tc p]"]
  obtain ps w' where
    h: "handle_tool_calls_loop e w2 (acc @ [tool_message e tc p]) rest
          = (Inr ((acc @ [tool_message e tc p]) @ map2 (tool_message e) rest ps), w')"
    and l: "length ps = length rest" and a: "list_all is_result_payload ps" by blast
  have "handle_tool_calls_loop e w acc (tc # rest)
          = (Inr (acc @ map2 (tool_message e) (tc # rest) (p # ps)), w')"
    using handle_loop_step [OF dec pr tr] h by simp
  moreover have "length (p # ps) = length (tc # rest)" using l by simp
  moreover have "list_all is_result_payload (p # ps)" using pp a by simp
  ultimately show ?case by blast
qed

lemma handle_loop_undecodable:
  "list_all (servable e) pre \<Longrightarrow> json_loads e (raw_args tc) = Inl x \<Longrightarrow>
   \<exists>w'. handle_tool_calls_loop e w acc (pre @ tc # rest) = (Inl x, w')"
proof (induction pre arbitrary: w acc)
  case Nil
  then show ?case by simp
next
  case (Cons t pre)
  from Cons.prems have p: "list_all (servable e) pre" and d: "servable e t" by simp_all
  from servable_step [OF d, of w] obtain args r w1 where
    dec: "json_loads e (raw_args t) = Inr args"
    and pr: "unprintable e (''[Tool] '' @ fn_name t @ ''('' @ fmt e args @ '')'') = None"
    and tr: "tool_result e (print_line (''[Tool] '' @ fn_name t @ ''('' @ fmt e args @ '')'') w)
                (fn_name t) args = (Inr r, w1)"
    by blast
  from Cons.IH [OF p Cons.prems(2), of w1 "acc @ [tool_message e t r]"]
  show ?case using handle_loop_step [OF dec pr tr] by simp
qed

lemma handle_loop_frame:
  "heap (snd (handle_tool_calls_loop e w acc tcs)) = heap w
   \<and> model_log (snd (handle_tool_calls_loop e w acc tcs)) = model_log w"
proof (induction tcs arbitrary: w acc)
  case Nil
  then show ?case by simp
next
  case (Cons tc rest)
  show ?case
  proof (cases "json_loads e (raw_args tc)")
    case (Inl x)
    then show ?thesis by simp
  next
    case (Inr args)
    obtain q w1 where pr: "print e (''[Tool] '' @ fn_name tc @ ''('' @ fmt e args @ '')'') w = (q, w1)"
      by (cases "print e (''[Tool] '' @ fn_name tc @ ''('' @ fmt e args @ '')'') w")
    from print_frame [OF pr] have f1: "heap w1 = heap w" "model_log w1 = model_log w" by simp_all
    show ?thesis
    proof (cases q)
      case (Inl x)
      with Inr pr f1 show ?thesis by simp
    next
      case u: (Inr u)
      obtain r w2 where tr: "tool_result e w1 (fn_name tc) args = (r, w2)"
        by (cases "tool_result e w1 (fn_name tc) args")
      from tool_result_frame [OF tr] f1
      have f2: "heap w2 = heap w" "model_log w2 = model_log w" by simp_all
      show ?thesis
      proof (cases r)
        case (Inl x)
        with Inr pr u tr f2 show ?thesis by simp
      next
        case p: (Inr p)
        have "handle_tool_calls_loop e w acc (tc # rest)
                = handle_tool_calls_loop e w2 (acc @ [tool_message e tc p]) rest"
          using Inr pr u tr p by simp
        with f2 Cons.IH [of w2 "acc @ [tool_message e tc p]"] show ?thesis by simp
      qed
    qed
  qed
qed

lemma handle_tool_calls_frame:
  "handle_tool_calls e w tcs = (r, w') \<Longrightarrow> heap w' = heap w \<and> model_log w' = model_log w"
  using handle_loop_frame [of e w "[]" tcs] by (simp add: handle_tool_calls_def)

lemma TOOL_DISPATCH_Some: "TOOL_DISPATCH n = Some t \<Longrightarrow> n = tool_name_of t"
  by (cases t) (auto simp: TOOL_DISPATCH_def split: if_splits)

lemma find_undeclared:
  "find (\<lambda>k. k \<notin> S) ks = None \<longleftrightarrow> list_all (\<lambda>k. k \<in> S) ks"
  by (induction ks) auto

lemma call_unfit:
  assumes nf: "\<not> fits t args"
  shows "\<exists>fault. call e w t args = (Inl (TypeError (call_fault_text e (tool_name_of t) fault)), w)"
proof (cases args)
  case (JObj kvs)
  show ?thesis
  proof (cases t)
    case Record_user_details
    show ?thesis
    proof (cases "find (\<lambda>k. k \<notin> {''email'', ''name'', ''notes''}) (map fst kvs)")
      case (Some k)
      then show ?thesis using JObj Record_user_details by auto
    next
      case None
      then have "list_all (\<lambda>k. k \<in> {''email'', ''name'', ''notes''}) (map fst kvs)"
        by (simp only: find_undeclared)
      with nf JObj Record_user_details
      have "''email'' \<notin> set (map fst kvs)" by auto
      then have "map_of kvs ''email'' = None" by (simp add: map_of_eq_None_iff)
      then show ?thesis using None JObj Record_user_details by auto
    qed
  next
    case Record_unknown_question
    show ?thesis
    proof (cases "find (\<lambda>k. k \<notin> {''question''}) (map fst kvs)")
      case (Some k)
      then show ?thesis using JObj Record_unknown_question by auto
    next
      case None
      then have "list_all (\<lambda>k. k \<in> {''question''}) (map fst kvs)"
        by (simp only: find_undeclared)
      with nf JObj Record_unknown_question
      have "''question'' \<notin> set (map fst kvs)" by auto
      then have "map_of kvs ''question'' = None" by (simp add: map_of_eq_None_iff)
      then show ?thesis using None JObj Record_unknown_question by auto
    qed
  qed
qed (cases t; auto)+

lemma tool_result_unfit:
  assumes "TOOL_DISPATCH n = Some t" and "\<not> fits t args"
  shows "\<exists>fault. tool_result e w n args =
           (Inr (error_payload (''bad arguments for '' @ n @ '': '' @ call_fault_text e n fault)), w)"
proof -
  from call_unfit [OF assms(2), of e w] obtain fault where
    c: "call e w t args = (Inl (TypeError (call_fault_text e (tool_name_of t) fault)), w)" ..
  have n: "n = tool_name_of t" using assms(1) by (rule TOOL_DISPATCH_Some)
  show ?thesis using assms(1) c n by (auto simp: tool_result_def)
qed

lemma tool_result_raises:
  assumes "TOOL_DISPATCH n = Some t" and "call e w t args = (Inl x, w')" and "\<not> is_TypeError x"
  shows "tool_result e w n args
           = (Inr (error_payload (''tool '' @ n @ '' failed: '' @ exn_text x)), w')"
  using assms by (cases x) (simp_all add: tool_result_def)

lemmas sample_calls =
  call_question_def call_unregistered_def call_garbled_def call_unregistered_garbled_def
  call_unprintable_def

lemmas run_defs =
  handle_tool_calls_def tool_result_def tool_message_def error_payload_def recorded_ok_def
  record_user_details_def record_unknown_question_def push_def truthy_def kwarg_def
  print_def print_line_def fmt_def Let_def

lemma chat_loop_return:
  "chat_round e m w = Return r w' \<Longrightarrow> chat_loop e m w = Some (r, w')"
  by (subst chat_loop.simps) simp

lemma chat_loop_continue:
  "chat_round e m w = Continue w' \<Longrightarrow> chat_loop e m w = chat_loop e m w'"
  by (subst chat_loop.simps) simp

lemma chat_round_raises:
  assumes "completions_create e (heap w ! m) = Inr ch" and "finish_reason ch = ''tool_calls''"
    and "handle_tool_calls e (w\<lparr>model_log := model_log w @ [heap w ! m]\<rparr>)
           (case msg_tool_calls ch of None \<Rightarrow> [] | Some l \<Rightarrow> l) = (Inl x, w')"
  shows "chat_round e m w = Return (Inl x) w'"
  using assms by (simp add: chat_round_def Let_def)

lemma chat_round_continues:
  assumes "completions_create e (heap w ! m) = Inr ch" and "finish_reason ch = ''tool_calls''"
    and "handle_tool_calls e (w\<lparr>model_log := model_log w @ [heap w ! m]\<rparr>)
           (case msg_tool_calls ch of None \<Rightarrow> [] | Some l \<Rightarrow> l) = (Inr rs, w')"
  shows "chat_round e m w =
           Continue (list_extend m rs
             (list_append m (assistant_message (msg_content ch)
                (case msg_tool_calls ch of None \<Rightarrow> [] | Some l \<Rightarrow> l)) w'))"
  using assms by (simp add: chat_round_def Let_def)

lemma heap_after_append_extend:
  "m < length (heap w) \<Longrightarrow>
   heap (list_extend m rs (list_append m a w)) = (heap w)[m := heap w ! m @ a # rs]"
  by (simp add: list_extend_def list_append_def)

lemma handle_loop_Cons_Inr:
  assumes "handle_tool_calls_loop e w acc (tc # rest) = (Inr rs, w')"
  shows "\<exists>args r w2. json_loads e (raw_args tc) = Inr args
           \<and> unprintable e (''[Tool] '' @ fn_name tc @ ''('' @ fmt e args @ '')'') = None
           \<and> tool_result e (print_line (''[Tool] '' @ fn_name tc @ ''('' @ fmt e args @ '')'') w)
                (fn_name tc) args = (Inr r, w2)
           \<and> handle_tool_calls_loop e w2 (acc @ [tool_message e tc r]) rest = (Inr rs, w')"
  using assms by (auto simp: print_def Let_def split: sum.splits option.splits prod.splits)

lemma handle_loop_prefix:
  "handle_tool_calls_loop e w acc tcs = (Inr rs, w') \<Longrightarrow> prefix acc rs"
proof (induction tcs arbitrary: w acc)
  case Nil
  then show ?case by simp
next
  case (Cons tc rest)
  from handle_loop_Cons_Inr [OF Cons.prems] obtain r w2 where
    "handle_tool_calls_loop e w2 (acc @ [tool_message e tc r]) rest = (Inr rs, w')" by blast
  from Cons.IH [OF this] show ?case by (rule append_prefixD)
qed

lemma tool_result_unknown_Inr:
  "TOOL_DISPATCH n = None \<Longrightarrow> tool_result e w n args = (Inr r, w') \<Longrightarrow>
   r = error_payload (''unknown tool '' @ n)"
  by (auto simp: tool_result_def split: prod.splits sum.splits)

lemma handle_loop_unknown:
  "handle_tool_calls_loop e w acc tcs = (Inr rs, w') \<Longrightarrow> tc \<in> set tcs \<Longrightarrow>
   TOOL_DISPATCH (fn_name tc) = None \<Longrightarrow>
   tool_message e tc (error_payload (''unknown tool '' @ fn_name tc)) \<in> set rs"
proof (induction tcs arbitrary: w acc)
  case Nil
  then show ?case by simp
next
  case (Cons t rest)
  from handle_loop_Cons_Inr [OF Cons.prems(1)] obtain args r w2 where
    tr: "tool_result e (print_line (''[Tool] '' @ fn_name t @ ''('' @ fmt e args @ '')'') w)
           (fn_name t) args = (Inr r, w2)"
    and rec: "handle_tool_calls_loop e w2 (acc @ [tool_message e t r]) rest = (Inr rs, w')"
    by blast
  show ?case
  proof (cases "tc = t")
    case True
    with Cons.prems(3) tr have "r = error_payload (''unknown tool '' @ fn_name tc)"
      by (auto dest: tool_result_unknown_Inr)
    moreover from handle_loop_prefix [OF rec] have "set (acc @ [tool_message e t r]) \<subseteq> set rs"
      by (rule set_mono_prefix)
    ultimately show ?thesis using True by auto
  next
    case False
    with Cons.prems(2) have "tc \<in> set rest" by simp
    from Cons.IH [OF rec this Cons.prems(3)] show ?thesis .
  qed
qed

lemma chat_round_servable:
  assumes "list_all (servable e) tcs" and "messages < length (heap w)"
    and "completions_create e (heap w ! messages) = Inr ch"
    and "finish_reason ch = ''tool_calls''"
    and "(case msg_tool_calls ch of None \<Rightarrow> [] | Some l \<Rightarrow> l) = tcs"
  shows "\<exists>rs w'. handle_tool_calls e (w\<lparr>model_log := model_log w @ [heap w ! messages]\<rparr>) tcs
                   = (Inr rs, w')
           \<and> length rs = length tcs
           \<and> chat_round e messages w =
               Continue (list_extend messages rs
                  (list_append messages (assistant_message (msg_content ch) tcs) w'))
           \<and> heap (list_extend messages rs
                  (list_append messages (assistant_message (msg_content ch) tcs) w'))
               = (heap w)[messages := heap w ! messages
                                        @ assistant_message (msg_content ch) tcs # rs]
           \<and> model_log (list_extend messages rs
                  (list_append messages (assistant_message (msg_content ch) tcs) w'))
               = model_log w @ [heap w ! messages]"
proof -
  from handle_loop_servable [OF assms(1),
      where w = "w\<lparr>model_log := model_log w @ [heap w ! messages]\<rparr>" and acc = "[]"]
  obtain rs w' where
    h: "handle_tool_calls e (w\<lparr>model_log := model_log w @ [heap w ! messages]\<rparr>) tcs
          = (Inr rs, w')" and l: "length rs = length tcs"
    by (auto simp: handle_tool_calls_def)
  from handle_tool_calls_frame [OF h]
  have hp: "heap w' = heap w" and ml: "model_log w' = model_log w @ [heap w ! messages]"
    by simp_all
  from chat_round_continues [OF assms(3,4), of rs w'] h assms(5)
  have "chat_round e messages w =
               Continue (list_extend messages rs
                  (list_append messages (assistant_message (msg_content ch) tcs) w'))"
    by simp
  moreover from heap_after_append_extend [of messages w' rs] assms(2) hp
  have "heap (list_extend messages rs
                  (list_append messages (assistant_message (msg_content ch) tcs) w'))
               = (heap w)[messages := heap w ! messages
                                        @ assistant_message (msg_content ch) tcs # rs]"
    by simp
  moreover from ml
  have "model_log (list_extend messages rs
                  (list_append messages (assistant_message (msg_content ch) tcs) w'))
               = model_log w @ [heap w ! messages]"
    by (simp add: list_extend_def list_append_def)
  ultimately show ?thesis using h l by blast
qed

lemma unservable_raises:
  "\<not> servable e tc \<Longrightarrow> \<exists>x w'. handle_tool_calls_loop e w acc (tc # rest) = (Inl x, w')"
  by (auto simp: servable_def print_def tool_result_def Let_def
           split: sum.splits option.splits)

lemma handle_loop_unservable:
  "\<not> list_all (servable e) tcs \<Longrightarrow>
   \<exists>x w'. handle_tool_calls_loop e w acc tcs = (Inl x, w')"
proof (induction tcs arbitrary: w acc)
  case Nil
  then show ?case by simp
next
  case (Cons tc rest)
  show ?case
  proof (cases "servable e tc")
    case False
    then show ?thesis by (rule unservable_raises)
  next
    case True
    with Cons.prems have r: "\<not> list_all (servable e) rest" by simp
    from servable_step [OF True, of w] obtain args p w1 where
      dec: "json_loads e (raw_args tc) = Inr args"
      and pr: "unprintable e (''[Tool] '' @ fn_name tc @ ''('' @ fmt e args @ '')'') = None"
      and tr: "tool_result e (print_line (''[Tool] '' @ fn_name tc @ ''('' @ fmt e args @ '')'') w)
                  (fn_name tc) args = (Inr p, w1)"
      by blast
    from Cons.IH [OF r, of w1 "acc @ [tool_message e tc p]"]
    show ?thesis using handle_loop_step [OF dec pr tr] by simp
  qed
qed

lemma undecodable_unservable: "json_loads e (raw_args tc) = Inl x \<Longrightarrow> \<not> servable e tc"
  by (simp add: servable_def)

lemma handle_loop_garbled:
  assumes "json_loads e (raw_args tc) = Inl x"
  shows "\<exists>x' w'. handle_tool_calls_loop e w acc (pre @ tc # rest) = (Inl x', w')
           \<and> (list_all (servable e) pre \<longrightarrow> x' = x)"
proof -
  from undecodable_unservable [OF assms]
  have "\<not> list_all (servable e) (pre @ tc # rest)" by simp
  from handle_loop_unservable [OF this, of w acc] obtain x' w' where
    h: "handle_tool_calls_loop e w acc (pre @ tc # rest) = (Inl x', w')" by blast
  have "x' = x" if "list_all (servable e) pre"
    using handle_loop_undecodable [OF that assms, of w acc rest] h by auto
  with h show ?thesis by blast
qed

lemma tool_result_TypeError:
  assumes "TOOL_DISPATCH n = Some t" and "call e w t args = (Inl (TypeError m), w')"
  shows "tool_result e w n args
           = (Inr (error_payload (''bad arguments for '' @ n @ '': '' @ m)), w')"
  using assms by (simp add: tool_result_def)

section \<open>Facts about the chat loop\<close>

lemma chat_loop_rounds:
  "chat_loop e m w =
     (case chat_rounds n e m w of
        Return r w' \<Rightarrow> Some (r, w')
      | Continue w' \<Rightarrow> chat_loop e m w')"
proof (induction n arbitrary: w)
  case 0
  show ?case by simp
next
  case (Suc n)
  show ?case
  proof (cases "chat_round e m w")
    case (Return r w')
    then show ?thesis by (simp add: chat_loop_return)
  next
    case (Continue w')
    then show ?thesis using Suc [of w'] by (simp add: chat_loop_continue)
  qed
qed

lemma chat_loop_Some_rounds:
  assumes "chat_loop e m w = Some y"
  shows "\<exists>n. chat_rounds n e m w = Return (fst y) (snd y)"
proof (rule chat_loop.raw_induct
    [where P = "\<lambda>e m w y. \<exists>n. chat_rounds n e m w = Return (fst y) (snd y)", OF _ assms])
  fix f e' m' v y'
  assume IH: "\<And>a b c d. f a b c = Some d \<Longrightarrow> \<exists>n. chat_rounds n a b c = Return (fst d) (snd d)"
    and step: "(case chat_round e' m' v of
                  Return r w' \<Rightarrow> Some (r, w')
                | Continue w' \<Rightarrow> f e' m' w') = Some y'"
  show "\<exists>n. chat_rounds n e' m' v = Return (fst y') (snd y')"
  proof (cases "chat_round e' m' v")
    case (Return r v')
    with step have "chat_rounds (Suc 0) e' m' v = Return (fst y') (snd y')" by auto
    then show ?thesis ..
  next
    case (Continue v')
    with step have "f e' m' v' = Some y'" by simp
    from IH [OF this] obtain n where "chat_rounds n e' m' v' = Return (fst y') (snd y')" ..
    with Continue have "chat_rounds (Suc n) e' m' v = Return (fst y') (snd y')" by simp
    then show ?thesis ..
  qed
qed

lemma chat_loop_diverges:
  assumes "\<And>n. \<exists>w'. chat_rounds n e m w = Continue w'"
  shows "chat_loop e m w = None"
proof (cases "chat_loop e m w")
  case None
  then show ?thesis .
next
  case (Some y)
  from chat_loop_Some_rounds [OF this] obtain n where
    "chat_rounds n e m w = Return (fst y) (snd y)" ..
  with assms [of n] show ?thesis by simp
qed

lemma read_pdf_text_frame:
  "read_pdf_text e w p = (t, w') \<Longrightarrow>
   heap w' = heap w \<and> model_log w' = model_log w \<and> outbox w' = outbox w
   \<and> t = fst (read_pdf_text e v p)"
  by (auto simp: read_pdf_text_def print_line_def split: pdf_source.splits prod.splits option.splits)

lemma read_text_file_frame:
  "read_text_file e w p = (t, w') \<Longrightarrow>
   heap w' = heap w \<and> model_log w' = model_log w \<and> outbox w' = outbox w
   \<and> t = fst (read_text_file e v p)"
  by (auto simp: read_text_file_def print_line_def split: text_source.splits)

lemma seed_eq:
  assumes "history < length (heap w)"
  shows "\<exists>w0. seed e w message history = (length (heap w), w0)
           \<and> heap w0 = heap w @ [grounded_system_message e w # heap w ! history
                                   @ [user_message message]]
           \<and> model_log w0 = model_log w \<and> outbox w0 = outbox w"
proof -
  obtain t1 w1 where r1: "read_pdf_text e w PROFILE_PDF = (t1, w1)"
    by (cases "read_pdf_text e w PROFILE_PDF")
  obtain t2 w2 where r2: "read_text_file e w1 SUMMARY_TXT = (t2, w2)"
    by (cases "read_text_file e w1 SUMMARY_TXT")
  from read_pdf_text_frame [OF r1, of w]
  have f1: "heap w1 = heap w" "model_log w1 = model_log w" "outbox w1 = outbox w"
    and t1: "t1 = fst (read_pdf_text e w PROFILE_PDF)" by simp_all
  from read_text_file_frame [OF r2, of w]
  have f2: "heap w2 = heap w1" "model_log w2 = model_log w1" "outbox w2 = outbox w1"
    and t2: "t2 = fst (read_text_file e w SUMMARY_TXT)" by simp_all
  have g: "grounded_system_message e w = system_message (build_system_prompt NAME t2 t1)"
    by (simp add: grounded_system_message_def t1 t2)
  show ?thesis
    using assms f1 f2
    by (simp add: seed_def r1 r2 Let_def list_extend_def list_append_def g nth_append)
qed

lemma chat_round_logs:
  "model_log (world_of (chat_round e m w)) = model_log w @ [heap w ! m]"
proof (cases "completions_create e (heap w ! m)")
  case (Inl x)
  then show ?thesis by (simp add: chat_round_def Let_def)
next
  case (Inr ch)
  let ?tcs = "case msg_tool_calls ch of None \<Rightarrow> [] | Some l \<Rightarrow> l"
  obtain r w2 where
    h: "handle_tool_calls e (w\<lparr>model_log := model_log w @ [heap w ! m]\<rparr>) ?tcs = (r, w2)"
    by (cases "handle_tool_calls e (w\<lparr>model_log := model_log w @ [heap w ! m]\<rparr>) ?tcs")
  from handle_tool_calls_frame [OF h]
  have "model_log w2 = model_log w @ [heap w ! m]" by simp
  with Inr h show ?thesis
    by (cases r) (simp_all add: chat_round_def Let_def list_extend_def list_append_def)
qed

lemma chat_round_always_continues:
  assumes "\<And>ms. \<exists>ch. completions_create e ms = Inr ch \<and> finish_reason ch = ''tool_calls''
             \<and> list_all (servable e) (case msg_tool_calls ch of None \<Rightarrow> [] | Some l \<Rightarrow> l)"
  shows "\<exists>w'. chat_round e m w = Continue w' \<and> length (model_log w') = Suc (length (model_log w))"
proof -
  from assms [of "heap w ! m"] obtain ch where
    c: "completions_create e (heap w ! m) = Inr ch" and f: "finish_reason ch = ''tool_calls''"
    and d: "list_all (servable e) (case msg_tool_calls ch of None \<Rightarrow> [] | Some l \<Rightarrow> l)"
    by blast
  from handle_loop_servable [OF d,
      where w = "w\<lparr>model_log := model_log w @ [heap w ! m]\<rparr>" and acc = "[]"]
  obtain rs w1 where
    h: "handle_tool_calls e (w\<lparr>model_log := model_log w @ [heap w ! m]\<rparr>)
          (case msg_tool_calls ch of None \<Rightarrow> [] | Some l \<Rightarrow> l) = (Inr rs, w1)"
    by (auto simp: handle_tool_calls_def)
  from chat_round_continues [OF c f h] obtain w' where r: "chat_round e m w = Continue w'"
    by blast
  with chat_round_logs [of e m w] show ?thesis by simp
qed

lemma chat_rounds_always_continue:
  assumes "\<And>ms. \<exists>ch. completions_create e ms = Inr ch \<and> finish_reason ch = ''tool_calls''
             \<and> list_all (servable e) (case msg_tool_calls ch of None \<Rightarrow> [] | Some l \<Rightarrow> l)"
  shows "\<exists>w'. chat_rounds n e m w = Continue w' \<and> length (model_log w') = length (model_log w) + n"
proof (induction n arbitrary: w)
  case 0
  show ?case by simp
next
  case (Suc n)
  from chat_round_always_continues [OF assms, of m w] obtain w1 where
    r: "chat_round e m w = Continue w1" and l: "length (model_log w1) = Suc (length (model_log w))"
    by blast
  from Suc [of w1] obtain w' where
    "chat_rounds n e m w1 = Continue w'" "length (model_log w') = length (model_log w1) + n"
    by blast
  with r l show ?case by simp
qed

lemma chat_never_returns:
  assumes "\<And>ms. \<exists>ch. completions_create e ms = Inr ch \<and> finish_reason ch = ''tool_calls''
             \<and> list_all (servable e) (case msg_tool_calls ch of None \<Rightarrow> [] | Some l \<Rightarrow> l)"
  shows "chat e w message history = None"
proof -
  obtain m w0 where s: "seed e w message history = (m, w0)"
    by (cases "seed e w message history")
  have "chat_loop e m w0 = None"
  proof (rule chat_loop_diverges)
    fix n
    from chat_rounds_always_continue [OF assms, of n m w0]
    show "\<exists>w'. chat_rounds n e m w0 = Continue w'" by blast
  qed
  with s show ?thesis by (simp add: chat_def)
qed

lemma chat_round_answer:
  assumes "completions_create e (heap w ! m) = Inr ch" and "finish_reason ch \<noteq> ''tool_calls''"
  shows "chat_round e m w =
           Return (Inr (case msg_content ch of None \<Rightarrow> [] | Some t \<Rightarrow> t))
                  (w\<lparr>model_log := model_log w @ [heap w ! m]\<rparr>)"
  using assms by (simp add: chat_round_def Let_def)



lemma refusal_27:
  "refusal 27 = [CHR 0x27] @ ''utf-8'' @ [CHR 0x27] @ '' codec can't encode character ''
     @ [CHR 0x27, CHR 0x5C] @ ''ud800'' @ [CHR 0x27] @ '' in position 27: surrogates not allowed''"
  by (simp add: refusal_def escaped_surrogate_def show_nat.simps)

lemma refusal_60:
  "refusal 60 = [CHR 0x27] @ ''utf-8'' @ [CHR 0x27] @ '' codec can't encode character ''
     @ [CHR 0x27, CHR 0x5C] @ ''ud800'' @ [CHR 0x27] @ '' in position 60: surrogates not allowed''"
  by (simp add: refusal_def escaped_surrogate_def show_nat.simps)

lemma push_returns:
  assumes "unprintable e (''[Push] '' @ message) = None"
    and "\<And>n m x. requests_post e n m = Raised x \<Longrightarrow> is_RequestException x"
  shows "fst (push e w message) = Inr ()"
    and "outbox (snd (push e w message)) =
           outbox w @ (if truthy (PUSHOVER_USER e) \<and> truthy (PUSHOVER_TOKEN e)
                       then [message] else [])"
    and "prefix (stdout w @ [''[Push] '' @ message]) (stdout (snd (push e w message)))"
proof -
  have c: "requests_post e (length (outbox w)) message = Delivered
           \<or> (\<exists>m. requests_post e (length (outbox w)) message = Raised (RequestException m))"
  proof (cases "requests_post e (length (outbox w)) message")
    case Delivered
    then show ?thesis by simp
  next
    case (Raised x)
    from assms(2) [OF this] Raised show ?thesis by (cases x) simp_all
  qed
  from c assms(1) show "fst (push e w message) = Inr ()"
    by (auto simp: push_def print_def print_line_def Let_def)
  from c assms(1) show "outbox (snd (push e w message)) =
           outbox w @ (if truthy (PUSHOVER_USER e) \<and> truthy (PUSHOVER_TOKEN e)
                       then [message] else [])"
    by (auto simp: push_def print_def print_line_def Let_def)
  from c assms(1)
  show "prefix (stdout w @ [''[Push] '' @ message]) (stdout (snd (push e w message)))"
    by (auto simp: push_def print_def print_line_def Let_def)
qed

lemma chat_round_unfolds:
  "chat_round e m w = Continue w' \<Longrightarrow>
   chat_loop e m w =
     (case chat_round e m w' of
        Return r v \<Rightarrow> Some (r, v)
      | Continue v \<Rightarrow> chat_loop e m v)"
  by (subst chat_loop.simps, simp, subst chat_loop.simps, rule refl)

lemma inventing_turn_returns:
  \<open>\<exists>v. chat_loop inventing_env 0 sample_world = Some (Inr ''Sorry, I cannot look that up.'', v)
      \<and> model_log v =
          [sample_history,
           sample_history
           @ [\<lparr>role = ''assistant'', content = ''Let me check.'',
                tool_calls = Some [call_unregistered, call_question], tool_call_id = None\<rparr>,
              \<lparr>role = ''tool'', content = ''{"error": "unknown tool get_weather"}'',
                tool_calls = None, tool_call_id = Some ''call_4''\<rparr>,
              \<lparr>role = ''tool'', content = ''{"recorded": "ok"}'',
                tool_calls = None, tool_call_id = Some ''call_3''\<rparr>]]\<close>
  apply (subst chat_loop_rounds [of _ _ _ 2])
  apply (simp add: numeral_2_eq_2 chat_round_def inventing_env_def sample_history_def
      list_extend_def list_append_def assistant_message_def answer_def
      sample_defs sample_calls run_defs)
  done


section \<open>The claims\<close>

text \<open>
  C1, as the code has it. The loop of \<^verbatim>\<open>chat\<close> is \<^verbatim>\<open>while True\<close> and has no cap on the
  rounds: when the model requests tool calls on every round and every request can be
  served (its payload decodes and its log lines can be printed), the turn never returns;
  for every \<open>n\<close>, after \<open>n\<close> rounds the model has been called \<open>n\<close> times and the loop is about
  to call it again. No result that says the turn could not be completed exists in the
  code.
\<close>

theorem chat_has_no_iteration_cap:
  assumes "\<And>ms. \<exists>ch. completions_create e ms = Inr ch \<and> finish_reason ch = ''tool_calls''
             \<and> list_all (servable e) (case msg_tool_calls ch of None \<Rightarrow> [] | Some l \<Rightarrow> l)"
  shows "chat e w message history = None
       \<and> (\<forall>n. \<exists>w'. chat_rounds n e (fst (seed e w message history))
                       (snd (seed e w message history)) = Continue w'
                  \<and> length (model_log w')
                      = length (model_log (snd (seed e w message history))) + n)"
  using chat_never_returns [OF assms] chat_rounds_always_continue [OF assms] by blast

theorem chat_has_no_iteration_cap_witness:
  "(\<forall>ms. \<exists>ch. completions_create looping_env ms = Inr ch \<and> finish_reason ch = ''tool_calls''
             \<and> list_all (servable looping_env)
                  (case msg_tool_calls ch of None \<Rightarrow> [] | Some l \<Rightarrow> l))
   \<and> chat looping_env sample_world ''Do you like tea?'' 0 = None
   \<and> (\<exists>w'. chat_rounds 1000 looping_env (fst (seed looping_env sample_world ''Do you like tea?'' 0))
               (snd (seed looping_env sample_world ''Do you like tea?'' 0)) = Continue w'
          \<and> length (model_log w')
               = length (model_log (snd (seed looping_env sample_world ''Do you like tea?'' 0))) + 1000)"
proof -
  have h: "\<exists>ch. completions_create looping_env ms = Inr ch \<and> finish_reason ch = ''tool_calls''
             \<and> list_all (servable looping_env)
                  (case msg_tool_calls ch of None \<Rightarrow> [] | Some l \<Rightarrow> l)" for ms
    by (simp add: looping_env_def servable_def sample_defs sample_calls fmt_def)
  from chat_has_no_iteration_cap [OF h, of sample_world "''Do you like tea?''" 0]
  show ?thesis using h by blast
qed

text \<open>
  The claim as the specification states it fails: with a model that asks for an
  unregistered tool on every round, the turn does not end in any result at all.
\<close>

theorem chat_loops_forever_counterexample:
  "chat insisting_env sample_world ''What is the weather in Quito?'' 0 = None"
  by (rule chat_never_returns)
     (simp add: insisting_env_def servable_def sample_defs sample_calls fmt_def)

text \<open>
  C2, as the code has it. \<^verbatim>\<open>json.loads\<close> is called outside the \<^verbatim>\<open>try\<close>: a batch that holds
  a request whose payload does not decode is not answered. An exception leaves
  \<^verbatim>\<open>handle_tool_calls\<close> (the decoder's own when the requests before that one are served,
  the exception of an earlier request otherwise), no result is returned for any request
  of the batch, and the turn that received the batch from the model ends with that
  exception, the message list as it was before the round.
\<close>

theorem undecodable_payload_leaves_executor:
  assumes "json_loads e (raw_args tc) = Inl x"
  shows "(\<exists>x' w'. handle_tool_calls e w (pre @ tc # rest) = (Inl x', w')
            \<and> (list_all (servable e) pre \<longrightarrow> x' = x))
       \<and> (completions_create e (heap w ! messages) = Inr ch
            \<and> finish_reason ch = ''tool_calls''
            \<and> msg_tool_calls ch = Some (pre @ tc # rest) \<longrightarrow>
          (\<exists>x' w'. chat_loop e messages w = Some (Inl x', w') \<and> heap w' = heap w
             \<and> (list_all (servable e) pre \<longrightarrow> x' = x)))"
proof (intro conjI impI)
  show "\<exists>x' w'. handle_tool_calls e w (pre @ tc # rest) = (Inl x', w')
            \<and> (list_all (servable e) pre \<longrightarrow> x' = x)"
    using handle_loop_garbled [OF assms, where w = w and acc = "[]" and pre = pre and rest = rest]
    by (simp add: handle_tool_calls_def)
next
  assume a: "completions_create e (heap w ! messages) = Inr ch
            \<and> finish_reason ch = ''tool_calls''
            \<and> msg_tool_calls ch = Some (pre @ tc # rest)"
  from handle_loop_garbled [OF assms,
      where w = "w\<lparr>model_log := model_log w @ [heap w ! messages]\<rparr>" and acc = "[]"
        and pre = pre and rest = rest]
  obtain x' w' where
    h: "handle_tool_calls e (w\<lparr>model_log := model_log w @ [heap w ! messages]\<rparr>)
          (pre @ tc # rest) = (Inl x', w')"
    and s: "list_all (servable e) pre \<longrightarrow> x' = x"
    by (auto simp: handle_tool_calls_def)
  from handle_tool_calls_frame [OF h] have "heap w' = heap w" by simp
  moreover from a h have "chat_round e messages w = Return (Inl x') w'"
    by (intro chat_round_raises [of e w messages ch]) simp_all
  then have "chat_loop e messages w = Some (Inl x', w')" by (rule chat_loop_return)
  ultimately show "\<exists>x' w'. chat_loop e messages w = Some (Inl x', w') \<and> heap w' = heap w
             \<and> (list_all (servable e) pre \<longrightarrow> x' = x)" using s by blast
qed

theorem undecodable_payload_leaves_executor_witness:
  "json_loads garbling_env (raw_args call_garbled)
       = Inl (JSONDecodeError ''Expecting value: line 1 column 1 (char 0)'')
   \<and> list_all (servable garbling_env) [call_details_ok]
   \<and> (\<exists>w'. handle_tool_calls garbling_env sample_world
              [call_details_ok, call_garbled, call_question]
            = (Inl (JSONDecodeError ''Expecting value: line 1 column 1 (char 0)''), w'))
   \<and> completions_create garbling_env (heap sample_world ! 0)
       = Inr \<lparr>finish_reason = ''tool_calls'', msg_content = None,
              msg_tool_calls = Some [call_details_ok, call_garbled, call_question]\<rparr>
   \<and> (\<exists>w'. chat_loop garbling_env 0 sample_world
            = Some (Inl (JSONDecodeError ''Expecting value: line 1 column 1 (char 0)''), w')
          \<and> heap w' = heap sample_world)"
proof -
  have a: "list_all (servable garbling_env) [call_details_ok]"
    by (simp add: servable_def garbling_env_def sample_defs fmt_def)
  have b: "json_loads garbling_env (raw_args call_garbled)
       = Inl (JSONDecodeError ''Expecting value: line 1 column 1 (char 0)'')"
    by (simp add: garbling_env_def sample_defs sample_calls)
  have c: "completions_create garbling_env (heap sample_world ! 0)
             = Inr \<lparr>finish_reason = ''tool_calls'', msg_content = None,
                    msg_tool_calls = Some [call_details_ok, call_garbled, call_question]\<rparr>"
    by (simp add: garbling_env_def sample_env_def)
  note t = undecodable_payload_leaves_executor [OF b, where w = sample_world
      and pre = "[call_details_ok]" and rest = "[call_question]" and messages = 0
      and ch = "\<lparr>finish_reason = ''tool_calls'', msg_content = None,
                 msg_tool_calls = Some [call_details_ok, call_garbled, call_question]\<rparr>"]
  from conjunct1 [OF t] a
  have d: "\<exists>w'. handle_tool_calls garbling_env sample_world
              [call_details_ok, call_garbled, call_question]
            = (Inl (JSONDecodeError ''Expecting value: line 1 column 1 (char 0)''), w')"
    by auto
  from conjunct2 [OF t] a c
  have e: "\<exists>w'. chat_loop garbling_env 0 sample_world
            = Some (Inl (JSONDecodeError ''Expecting value: line 1 column 1 (char 0)''), w')
          \<and> heap w' = heap sample_world"
    by auto
  show ?thesis using a b c d e by blast
qed

text \<open>
  The claim as the specification states it fails: for this batch the executor returns
  the exception, not an error result, and the second request is never looked at (the
  world is unchanged).
\<close>

theorem undecodable_payload_counterexample:
  "handle_tool_calls sample_env sample_world [call_garbled, call_question]
     = (Inl (JSONDecodeError ''Expecting value: line 1 column 1 (char 0)''), sample_world)"
  by (simp add: sample_defs sample_calls run_defs)

text \<open>
  C3, as the code has it. For every batch of requests that can all be served (each
  payload decodes, each log line can be printed), the executor returns one message per
  request, in the order of the requests: each has role \<^verbatim>\<open>tool\<close>, the identifier of its
  request, and as content the serialisation of a result payload (the success value or an
  error descriptor). A batch with a request that cannot be served gets no message at all:
  an exception leaves the executor.
\<close>

theorem one_tool_message_per_request:
  "(list_all (servable e) tcs \<longrightarrow>
      (\<exists>rs ps w'. handle_tool_calls e w tcs = (Inr rs, w')
           \<and> length rs = length tcs
           \<and> length ps = length tcs
           \<and> list_all is_result_payload ps
           \<and> rs = map2 (tool_message e) tcs ps
           \<and> map role rs = replicate (length tcs) ''tool''
           \<and> map tool_call_id rs = map (\<lambda>tc. Some (call_id tc)) tcs
           \<and> map content rs = map (json_dumps e) ps))
   \<and> (\<not> list_all (servable e) tcs \<longrightarrow>
        (\<exists>x w'. handle_tool_calls e w tcs = (Inl x, w')))"
proof (intro conjI impI)
  assume s: "list_all (servable e) tcs"
  from handle_loop_servable [OF s, of w "[]"] obtain ps w' where
    h: "handle_tool_calls e w tcs = (Inr (map2 (tool_message e) tcs ps), w')"
    and l: "length ps = length tcs" and p: "list_all is_result_payload ps"
    by (auto simp: handle_tool_calls_def)
  have "map role (map2 (tool_message e) tcs ps) = replicate (length tcs) ''tool''"
    using l by (induction tcs ps rule: list_induct2') (simp_all add: tool_message_def)
  moreover have "map tool_call_id (map2 (tool_message e) tcs ps) = map (\<lambda>tc. Some (call_id tc)) tcs"
    using l by (induction tcs ps rule: list_induct2') (simp_all add: tool_message_def)
  moreover have "map content (map2 (tool_message e) tcs ps) = map (json_dumps e) ps"
    using l by (induction tcs ps rule: list_induct2') (simp_all add: tool_message_def)
  moreover have "length (map2 (tool_message e) tcs ps) = length tcs" using l by simp
  ultimately show "\<exists>rs ps w'. handle_tool_calls e w tcs = (Inr rs, w')
           \<and> length rs = length tcs
           \<and> length ps = length tcs
           \<and> list_all is_result_payload ps
           \<and> rs = map2 (tool_message e) tcs ps
           \<and> map role rs = replicate (length tcs) ''tool''
           \<and> map tool_call_id rs = map (\<lambda>tc. Some (call_id tc)) tcs
           \<and> map content rs = map (json_dumps e) ps" using h l p by blast
next
  assume "\<not> list_all (servable e) tcs"
  from handle_loop_unservable [OF this, of w "[]"]
  show "\<exists>x w'. handle_tool_calls e w tcs = (Inl x, w')"
    by (simp add: handle_tool_calls_def)
qed

theorem one_tool_message_per_request_witness:
  \<open>list_all (servable sample_env) [call_details_ok, call_unregistered, call_question]
   \<and> (\<exists>rs ps w'.
         handle_tool_calls sample_env sample_world [call_details_ok, call_unregistered, call_question]
           = (Inr rs, w')
         \<and> length rs = 3 \<and> length ps = 3 \<and> list_all is_result_payload ps
         \<and> rs = map2 (tool_message sample_env) [call_details_ok, call_unregistered, call_question] ps
         \<and> map role rs = [''tool'', ''tool'', ''tool'']
         \<and> map tool_call_id rs = [Some ''call_1'', Some ''call_4'', Some ''call_3'']
         \<and> map content rs = map sample_dumps ps)
   \<and> \<not> list_all (servable sample_env) [call_details_ok, call_unprintable]
   \<and> (\<exists>x w'. handle_tool_calls sample_env sample_world [call_details_ok, call_unprintable]
                = (Inl x, w'))\<close>
proof -
  have d: "list_all (servable sample_env) [call_details_ok, call_unregistered, call_question]"
    by (simp add: servable_def sample_defs sample_calls fmt_def)
  have n: "\<not> list_all (servable sample_env) [call_details_ok, call_unprintable]"
    by (simp add: servable_def sample_defs sample_calls fmt_def)
  from conjunct1 [OF one_tool_message_per_request
      [of sample_env "[call_details_ok, call_unregistered, call_question]" sample_world]] d
  have a: \<open>\<exists>rs ps w'.
         handle_tool_calls sample_env sample_world [call_details_ok, call_unregistered, call_question]
           = (Inr rs, w')
         \<and> length rs = 3 \<and> length ps = 3 \<and> list_all is_result_payload ps
         \<and> rs = map2 (tool_message sample_env) [call_details_ok, call_unregistered, call_question] ps
         \<and> map role rs = [''tool'', ''tool'', ''tool'']
         \<and> map tool_call_id rs = [Some ''call_1'', Some ''call_4'', Some ''call_3'']
         \<and> map content rs = map sample_dumps ps\<close>
    by (simp add: sample_env_def call_details_ok_def sample_calls numeral_3_eq_3)
  from conjunct2 [OF one_tool_message_per_request
      [of sample_env "[call_details_ok, call_unprintable]" sample_world]] n
  have b: "\<exists>x w'. handle_tool_calls sample_env sample_world [call_details_ok, call_unprintable]
                = (Inl x, w')" by blast
  show ?thesis using d n a b by blast
qed

text \<open>
  The claim as the specification states it, for every batch, fails: the second payload
  of this batch does not decode, the first request has been executed (its notification
  is in the outbox), and what the executor gives back is the decoder's exception.
\<close>

theorem executor_raises_counterexample:
  \<open>fst (handle_tool_calls sample_env sample_world [call_details_ok, call_garbled])
     = Inl (JSONDecodeError ''Expecting value: line 1 column 1 (char 0)'')
   \<and> outbox (snd (handle_tool_calls sample_env sample_world [call_details_ok, call_garbled]))
     = [''Recording interest from Name not provided with email ada@example.org and notes not provided'']\<close>
  by (simp add: sample_defs sample_calls run_defs)

text \<open>
  C4, as the code has it. For a request whose payload decodes, whose two log lines can be
  printed and whose tool name is not registered, the message appended for it carries the
  error payload \<^verbatim>\<open>unknown tool NAME\<close>, and the loop of the executor goes on with the rest of
  the batch. When every request of the batch can be served, the round ends in
  \<open>Continue\<close> with the assistant message and one result per request appended, the error
  message among them; the next round calls the model with that longer list, and what the
  turn returns is what the rounds from there return.
\<close>

theorem unknown_tool_gives_error_result:
  assumes "TOOL_DISPATCH (fn_name tc) = None" and "json_loads e (raw_args tc) = Inr args"
    and "unprintable e (''[Tool] '' @ fn_name tc @ ''('' @ fmt e args @ '')'') = None"
    and "unprintable e (''[Tool][WARN] No handler for tool '' @ [CHR 0x27] @ fn_name tc
                          @ [CHR 0x27]) = None"
  shows "handle_tool_calls_loop e w results (tc # rest) =
           handle_tool_calls_loop e
             (print_line (''[Tool][WARN] No handler for tool '' @ [CHR 0x27] @ fn_name tc
                            @ [CHR 0x27])
                (print_line (''[Tool] '' @ fn_name tc @ ''('' @ fmt e args @ '')'') w))
             (results @ [tool_message e tc (error_payload (''unknown tool '' @ fn_name tc))])
             rest
       \<and> (list_all (servable e) tcs \<and> tc \<in> set tcs \<and> messages < length (heap w)
            \<and> completions_create e (heap w ! messages) = Inr ch
            \<and> finish_reason ch = ''tool_calls'' \<and> msg_tool_calls ch = Some tcs \<longrightarrow>
          (\<exists>rs w'. chat_round e messages w = Continue w'
             \<and> heap w' ! messages = heap w ! messages @ assistant_message (msg_content ch) tcs # rs
             \<and> length rs = length tcs
             \<and> tool_message e tc (error_payload (''unknown tool '' @ fn_name tc)) \<in> set rs
             \<and> chat_loop e messages w =
                 (case chat_round e messages w' of
                    Return r v \<Rightarrow> Some (r, v)
                  | Continue v \<Rightarrow> chat_loop e messages v)
             \<and> model_log (world_of (chat_round e messages w'))
                 = model_log w @ [heap w ! messages, heap w' ! messages]))"
proof (intro conjI impI)
  show "handle_tool_calls_loop e w results (tc # rest) =
           handle_tool_calls_loop e
             (print_line (''[Tool][WARN] No handler for tool '' @ [CHR 0x27] @ fn_name tc
                            @ [CHR 0x27])
                (print_line (''[Tool] '' @ fn_name tc @ ''('' @ fmt e args @ '')'') w))
             (results @ [tool_message e tc (error_payload (''unknown tool '' @ fn_name tc))])
             rest"
    by (rule handle_loop_step [OF assms(2,3)]) (rule tool_result_unknown [OF assms(1,4)])
next
  assume a: "list_all (servable e) tcs \<and> tc \<in> set tcs \<and> messages < length (heap w)
            \<and> completions_create e (heap w ! messages) = Inr ch
            \<and> finish_reason ch = ''tool_calls'' \<and> msg_tool_calls ch = Some tcs"
  then have t: "(case msg_tool_calls ch of None \<Rightarrow> [] | Some l \<Rightarrow> l) = tcs" by simp
  from a have m: "messages < length (heap w)" by blast
  from a chat_round_servable [OF _ _ _ _ t, of e messages w]
  obtain rs w1 where
    h: "handle_tool_calls e (w\<lparr>model_log := model_log w @ [heap w ! messages]\<rparr>) tcs
          = (Inr rs, w1)"
    and l: "length rs = length tcs"
    and r: "chat_round e messages w =
               Continue (list_extend messages rs
                  (list_append messages (assistant_message (msg_content ch) tcs) w1))"
    and hp: "heap (list_extend messages rs
                  (list_append messages (assistant_message (msg_content ch) tcs) w1))
               = (heap w)[messages := heap w ! messages
                                        @ assistant_message (msg_content ch) tcs # rs]"
    and ml: "model_log (list_extend messages rs
                  (list_append messages (assistant_message (msg_content ch) tcs) w1))
               = model_log w @ [heap w ! messages]"
    by blast
  let ?w' = "list_extend messages rs
                  (list_append messages (assistant_message (msg_content ch) tcs) w1)"
  from a have mem: "tc \<in> set tcs" by blast
  from h have "handle_tool_calls_loop e (w\<lparr>model_log := model_log w @ [heap w ! messages]\<rparr>)
                 [] tcs = (Inr rs, w1)"
    by (simp add: handle_tool_calls_def)
  from handle_loop_unknown [OF this mem assms(1)]
  have u: "tool_message e tc (error_payload (''unknown tool '' @ fn_name tc)) \<in> set rs" .
  from hp m have n: "heap ?w' ! messages
                       = heap w ! messages @ assistant_message (msg_content ch) tcs # rs"
    by simp
  from chat_round_logs [of e messages ?w'] ml
  have g: "model_log (world_of (chat_round e messages ?w'))
             = model_log w @ [heap w ! messages, heap ?w' ! messages]" by simp
  from r n l u chat_round_unfolds [OF r] g
  show "\<exists>rs w'. chat_round e messages w = Continue w'
             \<and> heap w' ! messages = heap w ! messages @ assistant_message (msg_content ch) tcs # rs
             \<and> length rs = length tcs
             \<and> tool_message e tc (error_payload (''unknown tool '' @ fn_name tc)) \<in> set rs
             \<and> chat_loop e messages w =
                 (case chat_round e messages w' of
                    Return r v \<Rightarrow> Some (r, v)
                  | Continue v \<Rightarrow> chat_loop e messages v)
             \<and> model_log (world_of (chat_round e messages w'))
                 = model_log w @ [heap w ! messages, heap w' ! messages]"
    by blast
qed

theorem unknown_tool_gives_error_result_witness:
  \<open>TOOL_DISPATCH (fn_name call_unregistered) = None
   \<and> json_loads inventing_env (raw_args call_unregistered) = Inr (JObj [])
   \<and> unprintable inventing_env (''[Tool] get_weather({})'') = None
   \<and> unprintable inventing_env
        (''[Tool][WARN] No handler for tool '' @ [CHR 0x27] @ ''get_weather'' @ [CHR 0x27]) = None
   \<and> handle_tool_calls inventing_env sample_world [call_unregistered]
       = (Inr [\<lparr>role = ''tool'', content = ''{"error": "unknown tool get_weather"}'',
                 tool_calls = None, tool_call_id = Some ''call_4''\<rparr>],
          sample_world\<lparr>stdout :=
            [''[Tool] get_weather({})'',
             ''[Tool][WARN] No handler for tool '' @ [CHR 0x27] @ ''get_weather'' @ [CHR 0x27]]\<rparr>)
   \<and> list_all (servable inventing_env) [call_unregistered, call_question]
   \<and> (\<exists>rs w'. chat_round inventing_env 0 sample_world = Continue w'
         \<and> length rs = 2
         \<and> heap w' ! 0 = sample_history
              @ assistant_message (Some ''Let me check.'') [call_unregistered, call_question] # rs
         \<and> \<lparr>role = ''tool'', content = ''{"error": "unknown tool get_weather"}'',
             tool_calls = None, tool_call_id = Some ''call_4''\<rparr> \<in> set rs
         \<and> model_log (world_of (chat_round inventing_env 0 w'))
             = [sample_history, heap w' ! 0])
   \<and> (\<exists>v. chat_loop inventing_env 0 sample_world
              = Some (Inr ''Sorry, I cannot look that up.'', v)
         \<and> length (model_log v) = 2)\<close>
proof -
  have a1: "TOOL_DISPATCH (fn_name call_unregistered) = None"
    by (simp add: sample_defs sample_calls)
  have a2: "json_loads inventing_env (raw_args call_unregistered) = Inr (JObj [])"
    by (simp add: inventing_env_def sample_defs sample_calls)
  have a3: "list_all (servable inventing_env) [call_unregistered, call_question]"
    by (simp add: servable_def inventing_env_def sample_defs sample_calls fmt_def)
  have a4: "completions_create inventing_env (heap sample_world ! 0)
              = Inr \<lparr>finish_reason = ''tool_calls'', msg_content = Some ''Let me check.'',
                     msg_tool_calls = Some [call_unregistered, call_question]\<rparr>"
    by (simp add: inventing_env_def sample_env_def sample_world_def sample_history_def)
  have a5: "(0::nat) < length (heap sample_world)" by (simp add: sample_world_def)
  have p1: "unprintable inventing_env (''[Tool] get_weather({})'') = None"
    by (simp add: inventing_env_def sample_defs)
  have p2: "unprintable inventing_env
        (''[Tool][WARN] No handler for tool '' @ [CHR 0x27] @ ''get_weather'' @ [CHR 0x27]) = None"
    by (simp add: inventing_env_def sample_defs)
  have q1: "unprintable inventing_env
              (''[Tool] '' @ fn_name call_unregistered @ ''('' @ fmt inventing_env (JObj []) @ '')'')
            = None"
    using p1 by (simp add: call_unregistered_def fmt_def inventing_env_def sample_env_def)
  have q2: "unprintable inventing_env
        (''[Tool][WARN] No handler for tool '' @ [CHR 0x27] @ fn_name call_unregistered
           @ [CHR 0x27]) = None"
    using p2 by (simp add: call_unregistered_def)
  have m: \<open>tool_message inventing_env call_unregistered
             (error_payload (''unknown tool '' @ fn_name call_unregistered))
           = \<lparr>role = ''tool'', content = ''{"error": "unknown tool get_weather"}'',
               tool_calls = None, tool_call_id = Some ''call_4''\<rparr>\<close>
    by (simp add: tool_message_def error_payload_def inventing_env_def sample_env_def sample_calls)
  note t = unknown_tool_gives_error_result [OF a1 a2 q1 q2, where w = sample_world
      and results = "[]" and rest = "[]" and tcs = "[call_unregistered, call_question]"
      and messages = 0
      and ch = "\<lparr>finish_reason = ''tool_calls'', msg_content = Some ''Let me check.'',
                     msg_tool_calls = Some [call_unregistered, call_question]\<rparr>"]
  from conjunct1 [OF t]
  have c1: \<open>handle_tool_calls inventing_env sample_world [call_unregistered]
       = (Inr [\<lparr>role = ''tool'', content = ''{"error": "unknown tool get_weather"}'',
                 tool_calls = None, tool_call_id = Some ''call_4''\<rparr>],
          sample_world\<lparr>stdout :=
            [''[Tool] get_weather({})'',
             ''[Tool][WARN] No handler for tool '' @ [CHR 0x27] @ ''get_weather'' @ [CHR 0x27]]\<rparr>)\<close>
    unfolding m
    by (simp add: handle_tool_calls_def inventing_env_def sample_env_def sample_world_def
                  print_line_def fmt_def call_unregistered_def)
  from conjunct2 [OF t] a3 a4 a5
  have c2: \<open>\<exists>rs w'. chat_round inventing_env 0 sample_world = Continue w'
         \<and> length rs = 2
         \<and> heap w' ! 0 = sample_history
              @ assistant_message (Some ''Let me check.'') [call_unregistered, call_question] # rs
         \<and> \<lparr>role = ''tool'', content = ''{"error": "unknown tool get_weather"}'',
             tool_calls = None, tool_call_id = Some ''call_4''\<rparr> \<in> set rs
         \<and> model_log (world_of (chat_round inventing_env 0 w'))
             = [sample_history, heap w' ! 0]\<close>
    unfolding m by (auto simp: sample_world_def)
  from inventing_turn_returns
  have c3: "\<exists>v. chat_loop inventing_env 0 sample_world
              = Some (Inr ''Sorry, I cannot look that up.'', v)
         \<and> length (model_log v) = 2"
    by auto
  show ?thesis using a1 a2 a3 p1 p2 c1 c2 c3 by blast
qed

text \<open>
  The claim as the specification states it, for every request with an unregistered name,
  fails: the payload is decoded before the name is looked up, so this request ends the
  batch with the decoder's exception.
\<close>

theorem unknown_tool_garbled_counterexample:
  "TOOL_DISPATCH (fn_name call_unregistered_garbled) = None
   \<and> handle_tool_calls sample_env sample_world [call_unregistered_garbled]
     = (Inl (JSONDecodeError ''Expecting value: line 1 column 1 (char 0)''), sample_world)"
  by (simp add: sample_defs sample_calls run_defs)

text \<open>
  C5, as the code has it. For a request to a registered tool whose payload decodes and
  whose log line can be printed: if the arguments do not fit the handler's parameters
  (not a mapping, a key that names no parameter, or a required parameter without value),
  the result appended for the request is the error payload
  \<^verbatim>\<open>bad arguments for NAME: DIAGNOSTIC\<close>, the diagnostic being the interpreter's message for
  the fault, and the handler body has not run (the world is the one after the log line);
  if the arguments fit and the handler body raises an exception \<open>x\<close> that is not a
  \<^verbatim>\<open>TypeError\<close>, the result is the error payload \<^verbatim>\<open>tool NAME failed: MESSAGE\<close> with the
  message of \<open>x\<close>; if the body raises a \<^verbatim>\<open>TypeError\<close>, the clause \<^verbatim>\<open>except TypeError\<close> takes it
  and the result is \<^verbatim>\<open>bad arguments for NAME: MESSAGE\<close>. In each case the loop goes on with
  the rest of the batch.
\<close>

theorem bad_arguments_and_tool_failures:
  assumes "TOOL_DISPATCH (fn_name tc) = Some func"
    and "json_loads e (raw_args tc) = Inr args"
    and "unprintable e (''[Tool] '' @ fn_name tc @ ''('' @ fmt e args @ '')'') = None"
  shows "(\<not> fits func args \<longrightarrow>
           (\<exists>fault. handle_tool_calls_loop e w results (tc # rest) =
              handle_tool_calls_loop e
                (print_line (''[Tool] '' @ fn_name tc @ ''('' @ fmt e args @ '')'') w)
                (results @ [tool_message e tc
                   (error_payload (''bad arguments for '' @ fn_name tc @ '': ''
                                     @ call_fault_text e (fn_name tc) fault))])
                rest))
       \<and> (\<forall>x w'. fits func args
             \<and> call e (print_line (''[Tool] '' @ fn_name tc @ ''('' @ fmt e args @ '')'') w)
                   func args = (Inl x, w')
             \<and> \<not> is_TypeError x \<longrightarrow>
           handle_tool_calls_loop e w results (tc # rest) =
             handle_tool_calls_loop e w'
               (results @ [tool_message e tc
                  (error_payload (''tool '' @ fn_name tc @ '' failed: '' @ exn_text x))])
               rest)
       \<and> (\<forall>m w'. fits func args
             \<and> call e (print_line (''[Tool] '' @ fn_name tc @ ''('' @ fmt e args @ '')'') w)
                   func args = (Inl (TypeError m), w') \<longrightarrow>
           handle_tool_calls_loop e w results (tc # rest) =
             handle_tool_calls_loop e w'
               (results @ [tool_message e tc
                  (error_payload (''bad arguments for '' @ fn_name tc @ '': '' @ m))])
               rest)"
proof (intro conjI impI allI)
  assume "\<not> fits func args"
  from tool_result_unfit [OF assms(1) this] obtain fault where
    "tool_result e (print_line (''[Tool] '' @ fn_name tc @ ''('' @ fmt e args @ '')'') w)
       (fn_name tc) args
       = (Inr (error_payload (''bad arguments for '' @ fn_name tc @ '': ''
                                @ call_fault_text e (fn_name tc) fault)),
          print_line (''[Tool] '' @ fn_name tc @ ''('' @ fmt e args @ '')'') w)" by blast
  from handle_loop_step [OF assms(2,3) this]
  show "\<exists>fault. handle_tool_calls_loop e w results (tc # rest) =
              handle_tool_calls_loop e
                (print_line (''[Tool] '' @ fn_name tc @ ''('' @ fmt e args @ '')'') w)
                (results @ [tool_message e tc
                   (error_payload (''bad arguments for '' @ fn_name tc @ '': ''
                                     @ call_fault_text e (fn_name tc) fault))])
                rest" by blast
next
  fix x w'
  assume a: "fits func args
             \<and> call e (print_line (''[Tool] '' @ fn_name tc @ ''('' @ fmt e args @ '')'') w)
                   func args = (Inl x, w')
             \<and> \<not> is_TypeError x"
  then have c: "call e (print_line (''[Tool] '' @ fn_name tc @ ''('' @ fmt e args @ '')'') w)
                   func args = (Inl x, w')" and n: "\<not> is_TypeError x" by simp_all
  from tool_result_raises [OF assms(1) c n]
  have "tool_result e (print_line (''[Tool] '' @ fn_name tc @ ''('' @ fmt e args @ '')'') w)
          (fn_name tc) args
          = (Inr (error_payload (''tool '' @ fn_name tc @ '' failed: '' @ exn_text x)), w')" .
  from handle_loop_step [OF assms(2,3) this]
  show "handle_tool_calls_loop e w results (tc # rest) =
             handle_tool_calls_loop e w'
               (results @ [tool_message e tc
                  (error_payload (''tool '' @ fn_name tc @ '' failed: '' @ exn_text x))])
               rest" .
next
  fix m w'
  assume a: "fits func args
             \<and> call e (print_line (''[Tool] '' @ fn_name tc @ ''('' @ fmt e args @ '')'') w)
                   func args = (Inl (TypeError m), w')"
  then have c: "call e (print_line (''[Tool] '' @ fn_name tc @ ''('' @ fmt e args @ '')'') w)
                   func args = (Inl (TypeError m), w')" by simp
  from tool_result_TypeError [OF assms(1) c]
  have "tool_result e (print_line (''[Tool] '' @ fn_name tc @ ''('' @ fmt e args @ '')'') w)
          (fn_name tc) args
          = (Inr (error_payload (''bad arguments for '' @ fn_name tc @ '': '' @ m)), w')" .
  from handle_loop_step [OF assms(2,3) this]
  show "handle_tool_calls_loop e w results (tc # rest) =
             handle_tool_calls_loop e w'
               (results @ [tool_message e tc
                  (error_payload (''bad arguments for '' @ fn_name tc @ '': '' @ m))])
               rest" .
qed

theorem bad_arguments_and_tool_failures_witness:
  \<open>TOOL_DISPATCH (fn_name call_details_misnamed) = Some Record_user_details
   \<and> json_loads sample_env (raw_args call_details_misnamed)
       = Inr (JObj [(''mail'', JStr ''ada@example.org'')])
   \<and> unprintable sample_env
        (''[Tool] '' @ fn_name call_details_misnamed @ ''(''
           @ fmt sample_env (JObj [(''mail'', JStr ''ada@example.org'')]) @ '')'') = None
   \<and> \<not> fits Record_user_details (JObj [(''mail'', JStr ''ada@example.org'')])
   \<and> (\<exists>fault w'. handle_tool_calls sample_env sample_world [call_details_misnamed] =
          (Inr [tool_message sample_env call_details_misnamed
                  (error_payload (''bad arguments for record_user_details: ''
                     @ sample_fault_text ''record_user_details'' fault))], w'))
   \<and> TOOL_DISPATCH (fn_name call_details_ok) = Some Record_user_details
   \<and> json_loads crashing_env (raw_args call_details_ok)
       = Inr (JObj [(''email'', JStr ''ada@example.org'')])
   \<and> unprintable crashing_env
        (''[Tool] '' @ fn_name call_details_ok @ ''(''
           @ fmt crashing_env (JObj [(''email'', JStr ''ada@example.org'')]) @ '')'') = None
   \<and> fits Record_user_details (JObj [(''email'', JStr ''ada@example.org'')])
   \<and> \<not> is_TypeError (OtherError ''Connection pool is closed.'')
   \<and> (\<exists>w'. handle_tool_calls crashing_env sample_world [call_details_ok] =
          (Inr [tool_message crashing_env call_details_ok
                  (error_payload ''tool record_user_details failed: Connection pool is closed.'')],
           w'))
   \<and> json_loads mistyping_env (raw_args call_details_ok)
       = Inr (JObj [(''email'', JStr ''ada@example.org'')])
   \<and> unprintable mistyping_env
        (''[Tool] '' @ fn_name call_details_ok @ ''(''
           @ fmt mistyping_env (JObj [(''email'', JStr ''ada@example.org'')]) @ '')'') = None
   \<and> (\<exists>w'. handle_tool_calls mistyping_env sample_world [call_details_ok] =
          (Inr [tool_message mistyping_env call_details_ok
                  (error_payload ''bad arguments for record_user_details: expected string or bytes-like object'')],
           w'))\<close>
proof -
  have a1: "TOOL_DISPATCH (fn_name call_details_misnamed) = Some Record_user_details"
    by (simp add: sample_defs)
  have a2: "json_loads sample_env (raw_args call_details_misnamed)
              = Inr (JObj [(''mail'', JStr ''ada@example.org'')])"
    by (simp add: sample_defs)
  have a3: "\<not> fits Record_user_details (JObj [(''mail'', JStr ''ada@example.org'')])"
    by simp
  have a4: "unprintable sample_env
        (''[Tool] '' @ fn_name call_details_misnamed @ ''(''
           @ fmt sample_env (JObj [(''mail'', JStr ''ada@example.org'')]) @ '')'') = None"
    by (simp add: sample_defs fmt_def)
  have b1: "TOOL_DISPATCH (fn_name call_details_ok) = Some Record_user_details"
    by (simp add: sample_defs)
  have b2: "json_loads crashing_env (raw_args call_details_ok)
              = Inr (JObj [(''email'', JStr ''ada@example.org'')])"
    by (simp add: sample_defs)
  have b3: "fits Record_user_details (JObj [(''email'', JStr ''ada@example.org'')])"
    by simp
  have b4: "unprintable crashing_env
        (''[Tool] '' @ fn_name call_details_ok @ ''(''
           @ fmt crashing_env (JObj [(''email'', JStr ''ada@example.org'')]) @ '')'') = None"
    by (simp add: sample_defs fmt_def)
  have b5: "\<exists>w'. call crashing_env
              (print_line (''[Tool] '' @ fn_name call_details_ok @ ''(''
                        @ fmt crashing_env (JObj [(''email'', JStr ''ada@example.org'')]) @ '')'')
                 sample_world)
              Record_user_details (JObj [(''email'', JStr ''ada@example.org'')])
            = (Inl (OtherError ''Connection pool is closed.''), w')"
    by (simp add: sample_defs record_user_details_def push_def truthy_def kwarg_def Let_def
                  print_def print_line_def fmt_def)
  have b6: "\<not> is_TypeError (OtherError ''Connection pool is closed.'')" by simp
  have m2: "json_loads mistyping_env (raw_args call_details_ok)
              = Inr (JObj [(''email'', JStr ''ada@example.org'')])"
    by (simp add: sample_defs mistyping_env_def)
  have m4: "unprintable mistyping_env
        (''[Tool] '' @ fn_name call_details_ok @ ''(''
           @ fmt mistyping_env (JObj [(''email'', JStr ''ada@example.org'')]) @ '')'') = None"
    by (simp add: sample_defs mistyping_env_def fmt_def)
  have m5: "\<exists>w'. call mistyping_env
              (print_line (''[Tool] '' @ fn_name call_details_ok @ ''(''
                        @ fmt mistyping_env (JObj [(''email'', JStr ''ada@example.org'')]) @ '')'')
                 sample_world)
              Record_user_details (JObj [(''email'', JStr ''ada@example.org'')])
            = (Inl (TypeError ''expected string or bytes-like object''), w')"
    by (simp add: sample_defs mistyping_env_def record_user_details_def push_def truthy_def
                  kwarg_def Let_def print_def print_line_def fmt_def)
  from bad_arguments_and_tool_failures [OF a1 a2 a4, of sample_world "[]" "[]"] a3
  have c1: "\<exists>fault w'. handle_tool_calls sample_env sample_world [call_details_misnamed] =
          (Inr [tool_message sample_env call_details_misnamed
                  (error_payload (''bad arguments for record_user_details: ''
                     @ sample_fault_text ''record_user_details'' fault))], w')"
    by (auto simp: handle_tool_calls_def sample_env_def call_details_misnamed_def)
  from b5 obtain w' where
    "call crashing_env
              (print_line (''[Tool] '' @ fn_name call_details_ok @ ''(''
                        @ fmt crashing_env (JObj [(''email'', JStr ''ada@example.org'')]) @ '')'')
                 sample_world)
              Record_user_details (JObj [(''email'', JStr ''ada@example.org'')])
            = (Inl (OtherError ''Connection pool is closed.''), w')" ..
  with bad_arguments_and_tool_failures [OF b1 b2 b4, of sample_world "[]" "[]"] b3 b6
  have c2: "\<exists>w'. handle_tool_calls crashing_env sample_world [call_details_ok] =
          (Inr [tool_message crashing_env call_details_ok
                  (error_payload ''tool record_user_details failed: Connection pool is closed.'')],
           w')"
    by (auto simp: handle_tool_calls_def call_details_ok_def)
  from m5 obtain w'' where
    "call mistyping_env
              (print_line (''[Tool] '' @ fn_name call_details_ok @ ''(''
                        @ fmt mistyping_env (JObj [(''email'', JStr ''ada@example.org'')]) @ '')'')
                 sample_world)
              Record_user_details (JObj [(''email'', JStr ''ada@example.org'')])
            = (Inl (TypeError ''expected string or bytes-like object''), w'')" ..
  with bad_arguments_and_tool_failures [OF b1 m2 m4, of sample_world "[]" "[]"] b3
  have c3: "\<exists>w'. handle_tool_calls mistyping_env sample_world [call_details_ok] =
          (Inr [tool_message mistyping_env call_details_ok
                  (error_payload ''bad arguments for record_user_details: expected string or bytes-like object'')],
           w')"
    by (auto simp: handle_tool_calls_def call_details_ok_def)
  show ?thesis using a1 a2 a3 a4 b1 b2 b3 b4 b6 c1 c2 m2 m4 c3 by blast
qed

text \<open>
  The claim as the specification states it fails twice. The payload of the first request
  of this batch is the JSON string of a lone surrogate: it decodes, it does not fit the
  handler, and the \<^verbatim>\<open>print\<close> of the log line, which stands before the \<^verbatim>\<open>try\<close>, raises
  \<^verbatim>\<open>UnicodeEncodeError\<close> (at position 27 of the line, see \<open>refusal_27\<close>): the batch is
  aborted. And where the arguments fit and the handler body raises a \<^verbatim>\<open>TypeError\<close>, the
  clause \<^verbatim>\<open>except TypeError\<close> reports it as bad arguments.
\<close>

theorem bad_arguments_counterexample:
  \<open>TOOL_DISPATCH (fn_name call_unprintable) = Some Record_user_details
   \<and> json_loads sample_env (raw_args call_unprintable) = Inr (JStr surrogate)
   \<and> \<not> fits Record_user_details (JStr surrogate)
   \<and> handle_tool_calls sample_env sample_world [call_unprintable, call_question]
       = (Inl (UnicodeEncodeError (refusal 27)), sample_world)
   \<and> fits Record_user_details (JObj [(''email'', JStr ''ada@example.org'')])
   \<and> fst (call mistyping_env sample_world Record_user_details
             (JObj [(''email'', JStr ''ada@example.org'')]))
       = Inl (TypeError ''expected string or bytes-like object'')
   \<and> map_sum id (map content)
         (fst (handle_tool_calls mistyping_env sample_world [call_details_ok]))
       = Inr [''{"error": "bad arguments for record_user_details: expected string or bytes-like object"}'']\<close>
  by (simp add: sample_defs sample_calls run_defs mistyping_env_def eval_nat_numeral)

text \<open>
  C6, as the code has it. Calling the handler registered as \<^verbatim>\<open>record_user_details\<close> with a
  mapping that holds only an email runs its body with the defaults \<^verbatim>\<open>Name not provided\<close>
  and \<^verbatim>\<open>not provided\<close>. Provided the notification line can be printed and the HTTP library
  raises nothing but a \<^verbatim>\<open>RequestException\<close>, the call returns the payload that maps
  \<^verbatim>\<open>recorded\<close> to \<^verbatim>\<open>ok\<close>, and its whole effect is that of one call of \<open>push\<close> (one line on the
  standard output, and one post when the credentials are configured). Under the same
  provisos the handler registered as \<^verbatim>\<open>record_unknown_question\<close>, called with a question,
  returns the same payload after one call of \<open>push\<close>.
\<close>

theorem record_user_details_email_only:
  assumes "unprintable e (''[Push] Recording interest from Name not provided with email ''
                            @ fmt e email @ '' and notes not provided'') = None"
    and "unprintable e (''[Push] Recording '' @ [CHR 0x27] @ fmt e question @ [CHR 0x27]
                            @ '' asked that I couldn't answer'') = None"
    and "\<And>n m x. requests_post e n m = Raised x \<Longrightarrow> is_RequestException x"
  shows "TOOL_DISPATCH ''record_user_details'' = Some Record_user_details
     \<and> TOOL_DISPATCH ''record_unknown_question'' = Some Record_unknown_question
     \<and> call e w Record_user_details (JObj [(''email'', email)])
         = record_user_details e w email (JStr ''Name not provided'') (JStr ''not provided'')
     \<and> (\<exists>w'. call e w Record_user_details (JObj [(''email'', email)]) = (Inr recorded_ok, w')
           \<and> w' = snd (push e w (''Recording interest from Name not provided with email ''
                                   @ fmt e email @ '' and notes not provided''))
           \<and> outbox w' = outbox w
                @ (if truthy (PUSHOVER_USER e) \<and> truthy (PUSHOVER_TOKEN e)
                   then [''Recording interest from Name not provided with email ''
                           @ fmt e email @ '' and notes not provided'']
                   else [])
           \<and> prefix (stdout w @ [''[Push] Recording interest from Name not provided with email ''
                                   @ fmt e email @ '' and notes not provided''])
                     (stdout w'))
     \<and> (\<exists>w'. call e w Record_unknown_question (JObj [(''question'', question)])
                = (Inr recorded_ok, w')
           \<and> w' = snd (push e w (''Recording '' @ [CHR 0x27] @ fmt e question @ [CHR 0x27]
                                   @ '' asked that I couldn't answer'')))"
proof -
  let ?m = "''Recording interest from Name not provided with email ''
              @ fmt e email @ '' and notes not provided''"
  let ?q = "''Recording '' @ [CHR 0x27] @ fmt e question @ [CHR 0x27]
              @ '' asked that I couldn't answer''"
  have pm: "unprintable e (''[Push] '' @ ?m) = None" using assms(1) by simp
  have pq: "unprintable e (''[Push] '' @ ?q) = None" using assms(2) by simp
  note rm = push_returns [OF pm assms(3), where w = w]
  note rq = push_returns [OF pq assms(3), where w = w]
  have f: "fmt e (JStr s) = s" for s by (simp add: fmt_def)
  have b: "call e w Record_user_details (JObj [(''email'', email)])
         = record_user_details e w email (JStr ''Name not provided'') (JStr ''not provided'')"
    by (simp add: kwarg_def)
  obtain u w1 where p1: "push e w ?m = (u, w1)" by (cases "push e w ?m")
  with rm(1) have u: "u = Inr ()" by simp
  have c1: "call e w Record_user_details (JObj [(''email'', email)]) = (Inr recorded_ok, w1)"
    using p1 u by (simp add: record_user_details_def kwarg_def f)
  obtain v w2 where p2: "push e w ?q = (v, w2)" by (cases "push e w ?q")
  with rq(1) have v: "v = Inr ()" by simp
  have c2: "call e w Record_unknown_question (JObj [(''question'', question)])
              = (Inr recorded_ok, w2)"
    using p2 v by (simp add: record_unknown_question_def)
  have d: "TOOL_DISPATCH ''record_user_details'' = Some Record_user_details"
    "TOOL_DISPATCH ''record_unknown_question'' = Some Record_unknown_question"
    by (simp_all add: TOOL_DISPATCH_def)
  from rm(2) p1 have o: "outbox w1 = outbox w
                @ (if truthy (PUSHOVER_USER e) \<and> truthy (PUSHOVER_TOKEN e) then [?m] else [])"
    by simp
  from rm(3) p1 have s: "prefix (stdout w @ [''[Push] '' @ ?m]) (stdout w1)" by simp
  from p1 have e1: "w1 = snd (push e w ?m)" by simp
  from p2 have e2: "w2 = snd (push e w ?q)" by simp
  show ?thesis using d b c1 c2 o s e1 e2 by auto
qed

theorem record_user_details_email_only_witness:
  "unprintable sample_env
     (''[Push] Recording interest from Name not provided with email ''
        @ fmt sample_env (JStr ''ada@example.org'') @ '' and notes not provided'') = None
   \<and> unprintable sample_env
       (''[Push] Recording '' @ [CHR 0x27]
          @ fmt sample_env (JStr ''What is your favourite colour?'') @ [CHR 0x27]
          @ '' asked that I couldn't answer'') = None
   \<and> (\<forall>n m. requests_post sample_env n m = Delivered)
   \<and> call sample_env sample_world Record_user_details (JObj [(''email'', JStr ''ada@example.org'')])
       = (Inr (JObj [(''recorded'', JStr ''ok'')]),
          sample_world\<lparr>
            stdout := [''[Push] Recording interest from Name not provided with email ada@example.org and notes not provided''],
            outbox := [''Recording interest from Name not provided with email ada@example.org and notes not provided'']\<rparr>)
   \<and> call sample_env sample_world Record_unknown_question
         (JObj [(''question'', JStr ''What is your favourite colour?'')])
       = (Inr (JObj [(''recorded'', JStr ''ok'')]),
          sample_world\<lparr>
            stdout := [''[Push] Recording '' @ [CHR 0x27] @ ''What is your favourite colour?''
                         @ [CHR 0x27] @ '' asked that I couldn't answer''],
            outbox := [''Recording '' @ [CHR 0x27] @ ''What is your favourite colour?''
                         @ [CHR 0x27] @ '' asked that I couldn't answer'']\<rparr>)
   \<and> (\<forall>n m. requests_post offline_env n m = Raised (RequestException ''Read timed out.''))
   \<and> is_RequestException (RequestException ''Read timed out.'')
   \<and> call offline_env sample_world Record_user_details (JObj [(''email'', JStr ''ada@example.org'')])
       = (Inr (JObj [(''recorded'', JStr ''ok'')]),
          sample_world\<lparr>
            stdout := [''[Push] Recording interest from Name not provided with email ada@example.org and notes not provided'',
                       ''[Push][WARN] Failed to send pushover: Read timed out.''],
            outbox := [''Recording interest from Name not provided with email ada@example.org and notes not provided'']\<rparr>)"
proof -
  have p1: "unprintable sample_env
     (''[Push] Recording interest from Name not provided with email ''
        @ fmt sample_env (JStr ''ada@example.org'') @ '' and notes not provided'') = None"
    by (simp add: sample_defs fmt_def)
  have p2: "unprintable sample_env
       (''[Push] Recording '' @ [CHR 0x27]
          @ fmt sample_env (JStr ''What is your favourite colour?'') @ [CHR 0x27]
          @ '' asked that I couldn't answer'') = None"
    by (simp add: sample_defs fmt_def)
  have q1: "unprintable offline_env
     (''[Push] Recording interest from Name not provided with email ''
        @ fmt offline_env (JStr ''ada@example.org'') @ '' and notes not provided'') = None"
    by (simp add: offline_env_def sample_defs fmt_def)
  have q2: "unprintable offline_env
       (''[Push] Recording '' @ [CHR 0x27]
          @ fmt offline_env (JStr ''What is your favourite colour?'') @ [CHR 0x27]
          @ '' asked that I couldn't answer'') = None"
    by (simp add: offline_env_def sample_defs fmt_def)
  have d: "requests_post sample_env n m = Delivered" for n m by (simp add: sample_env_def)
  have h: "\<And>n m x. requests_post sample_env n m = Raised x \<Longrightarrow> is_RequestException x"
    by (simp add: sample_env_def)
  have d': "requests_post offline_env n m = Raised (RequestException ''Read timed out.'')" for n m
    by (simp add: offline_env_def)
  have h': "\<And>n m x. requests_post offline_env n m = Raised x \<Longrightarrow> is_RequestException x"
    by (auto simp: offline_env_def)
  have i: "is_RequestException (RequestException ''Read timed out.'')" by simp
  note t = record_user_details_email_only [OF p1 p2 h, where w = sample_world]
  note u = record_user_details_email_only [OF q1 q2 h', where w = sample_world]
  from t have c1: "call sample_env sample_world Record_user_details
              (JObj [(''email'', JStr ''ada@example.org'')])
       = (Inr (JObj [(''recorded'', JStr ''ok'')]),
          sample_world\<lparr>
            stdout := [''[Push] Recording interest from Name not provided with email ada@example.org and notes not provided''],
            outbox := [''Recording interest from Name not provided with email ada@example.org and notes not provided'']\<rparr>)"
    by (simp add: sample_defs run_defs)
  from t have c2: "call sample_env sample_world Record_unknown_question
         (JObj [(''question'', JStr ''What is your favourite colour?'')])
       = (Inr (JObj [(''recorded'', JStr ''ok'')]),
          sample_world\<lparr>
            stdout := [''[Push] Recording '' @ [CHR 0x27] @ ''What is your favourite colour?''
                         @ [CHR 0x27] @ '' asked that I couldn't answer''],
            outbox := [''Recording '' @ [CHR 0x27] @ ''What is your favourite colour?''
                         @ [CHR 0x27] @ '' asked that I couldn't answer'']\<rparr>)"
    by (simp add: sample_defs run_defs)
  from u have c3: "call offline_env sample_world Record_user_details
              (JObj [(''email'', JStr ''ada@example.org'')])
       = (Inr (JObj [(''recorded'', JStr ''ok'')]),
          sample_world\<lparr>
            stdout := [''[Push] Recording interest from Name not provided with email ada@example.org and notes not provided'',
                       ''[Push][WARN] Failed to send pushover: Read timed out.''],
            outbox := [''Recording interest from Name not provided with email ada@example.org and notes not provided'']\<rparr>)"
    by (simp add: offline_env_def sample_defs run_defs)
  show ?thesis using p1 p2 d c1 c2 d' i c3 by blast
qed

text \<open>
  The claim as the specification states it fails: with an email that the standard output
  cannot encode, the \<^verbatim>\<open>print\<close> of \<open>push\<close>, which stands before its \<^verbatim>\<open>try\<close>, raises (at position
  60 of the line, see \<open>refusal_60\<close>), and so does the handler.
\<close>

theorem record_user_details_counterexample:
  "call sample_env sample_world Record_user_details (JObj [(''email'', JStr surrogate)])
     = (Inl (UnicodeEncodeError (refusal 60)), sample_world)"
  by (simp add: sample_defs run_defs eval_nat_numeral)

text \<open>
  C7. When the response of the model to the seeded message sequence has a finish reason
  other than \<^verbatim>\<open>tool_calls\<close>, the turn returns the text of that response as it is (the
  empty string when the response has no text); the model has been called exactly once,
  with the seeded sequence; nothing is appended to that sequence and nothing is posted.
\<close>

theorem ordinary_answer_one_model_call:
  assumes "history < length (heap w)"
    and "completions_create e (seeded e w message history) = Inr ch"
    and "finish_reason ch \<noteq> ''tool_calls''"
  shows "\<exists>w'. chat e w message history
                = Some (Inr (case msg_content ch of None \<Rightarrow> [] | Some t \<Rightarrow> t), w')
           \<and> model_log w' = model_log w @ [seeded e w message history]
           \<and> heap w' = heap w @ [seeded e w message history]
           \<and> outbox w' = outbox w"
proof -
  let ?S = "seeded e w message history"
  from seed_eq [OF assms(1), of e message] obtain w0 where
    s: "seed e w message history = (length (heap w), w0)"
    and h: "heap w0 = heap w @ [?S]" and l: "model_log w0 = model_log w"
    and o: "outbox w0 = outbox w" by (auto simp: seeded_def)
  from h have n: "heap w0 ! length (heap w) = ?S" by simp
  from assms(2) n have c: "completions_create e (heap w0 ! length (heap w)) = Inr ch" by simp
  from chat_round_answer [OF c assms(3)] n
  have "chat_round e (length (heap w)) w0 =
           Return (Inr (case msg_content ch of None \<Rightarrow> [] | Some t \<Rightarrow> t))
                  (w0\<lparr>model_log := model_log w0 @ [?S]\<rparr>)" by simp
  from chat_loop_return [OF this] s
  have "chat e w message history
          = Some (Inr (case msg_content ch of None \<Rightarrow> [] | Some t \<Rightarrow> t),
                  w0\<lparr>model_log := model_log w0 @ [?S]\<rparr>)"
    by (simp add: chat_def)
  then show ?thesis using h l o by simp
qed

theorem ordinary_answer_one_model_call_witness:
  "0 < length (heap sample_world)
   \<and> completions_create sample_env (seeded sample_env sample_world ''Hello'' 0)
       = Inr \<lparr>finish_reason = ''stop'', msg_content = Some ''Happy to help.'',
              msg_tool_calls = None\<rparr>
   \<and> (\<exists>w'. chat sample_env sample_world ''Hello'' 0 = Some (Inr ''Happy to help.'', w')
          \<and> model_log w' = [seeded sample_env sample_world ''Hello'' 0]
          \<and> heap w' = [sample_history, seeded sample_env sample_world ''Hello'' 0]
          \<and> outbox w' = [])
   \<and> completions_create silent_env (seeded silent_env sample_world ''Hello'' 0)
       = Inr \<lparr>finish_reason = ''stop'', msg_content = None, msg_tool_calls = None\<rparr>
   \<and> (\<exists>w'. chat silent_env sample_world ''Hello'' 0 = Some (Inr [], w')
          \<and> model_log w' = [seeded silent_env sample_world ''Hello'' 0])"
proof -
  have a: "0 < length (heap sample_world)" by (simp add: sample_world_def)
  have b: "completions_create sample_env (seeded sample_env sample_world ''Hello'' 0)
       = Inr \<lparr>finish_reason = ''stop'', msg_content = Some ''Happy to help.'',
              msg_tool_calls = None\<rparr>"
    by (simp add: sample_env_def answer_def)
  have c: "completions_create silent_env (seeded silent_env sample_world ''Hello'' 0)
       = Inr \<lparr>finish_reason = ''stop'', msg_content = None, msg_tool_calls = None\<rparr>"
    by (simp add: silent_env_def)
  from ordinary_answer_one_model_call [OF a b]
  have d: "\<exists>w'. chat sample_env sample_world ''Hello'' 0 = Some (Inr ''Happy to help.'', w')
          \<and> model_log w' = [seeded sample_env sample_world ''Hello'' 0]
          \<and> heap w' = [sample_history, seeded sample_env sample_world ''Hello'' 0]
          \<and> outbox w' = []"
    by (simp add: sample_world_def)
  from ordinary_answer_one_model_call [OF a c]
  have e: "\<exists>w'. chat silent_env sample_world ''Hello'' 0 = Some (Inr [], w')
          \<and> model_log w' = [seeded silent_env sample_world ''Hello'' 0]"
    by (auto simp: sample_world_def)
  show ?thesis using a b c d e by blast
qed

text \<open>
  C8. \<open>build_system_prompt\<close> takes three strings and returns a string: it reads and
  changes no world, and has no failing branch. For every persona name there are a fixed
  head and tail between which the summary and the profile text stand verbatim under
  their two headings, whatever the two texts are; with both texts empty the two sections
  are blank and everything else is as before.
\<close>

theorem build_system_prompt_interpolates:
  "\<exists>pre post.
     (\<forall>summary linkedin_text.
        build_system_prompt name summary linkedin_text =
          pre @ ''\<newline>\<newline>## Summary:\<newline>'' @ summary
              @ ''\<newline>\<newline>## LinkedIn Profile:\<newline>'' @ linkedin_text
              @ ''\<newline>\<newline>'' @ post)
     \<and> build_system_prompt name [] [] =
          pre @ ''\<newline>\<newline>## Summary:\<newline>\<newline>\<newline>## LinkedIn Profile:\<newline>\<newline>\<newline>'' @ post
     \<and> post = ''With this context, please chat with the user, always staying in character as ''
                @ name @ ''.''"
proof -
  define post where
    "post = ''With this context, please chat with the user, always staying in character as ''
              @ name @ ''.''"
  define pre where
    "pre = ''You are acting as '' @ name @ ''. You are answering questions on '' @ name
       @ '''s website, ''
     @ ''particularly questions related to '' @ name
       @ '''s career, background, skills and experience. ''
     @ ''Your responsibility is to represent '' @ name
       @ '' for interactions on the website as faithfully as possible. ''
     @ ''You are given a summary of '' @ name
       @ '''s background and LinkedIn profile which you can use to answer questions. ''
     @ ''Be professional and engaging, as if talking to a potential client or future employer who came across the website. ''
     @ ''If you don't know the answer to any question, use your record_unknown_question tool to record the question that you couldn't answer, ''
     @ ''even if it's about something trivial or unrelated to career. ''
     @ ''If the user is engaging in discussion, try to steer them towards getting in touch via email; ask for their email and name ''
     @ ''and record it using your record_user_details tool. ''
     @ ''Before calling the record_user_details tool, ask for the user's email address and name together.''"
  have p: "build_system_prompt name summary linkedin_text =
          pre @ ''\<newline>\<newline>## Summary:\<newline>'' @ summary
              @ ''\<newline>\<newline>## LinkedIn Profile:\<newline>'' @ linkedin_text
              @ ''\<newline>\<newline>'' @ post" for summary linkedin_text
    unfolding pre_def post_def build_system_prompt_def by (simp only: append_assoc)
  have q: "build_system_prompt name [] [] =
          pre @ ''\<newline>\<newline>## Summary:\<newline>\<newline>\<newline>## LinkedIn Profile:\<newline>\<newline>\<newline>'' @ post"
    unfolding p [of "[]" "[]"] by simp
  from p q post_def show ?thesis by blast
qed



text \<open>
  C10. When the response of the model has finish reason \<^verbatim>\<open>tool_calls\<close> and no list of tool
  calls, the round raises nothing: the executor maps the empty list of requests to the
  empty list of results and leaves the world as it is, one assistant message (with the
  empty list of tool calls, and the empty text when the response has none) and no tool
  message is appended, and the loop goes round again: the next round calls the model
  with the list that ends in that assistant message, and what the turn returns is what
  the rounds from there return.
\<close>

theorem empty_tool_call_list_is_tolerated:
  assumes "messages < length (heap w)"
    and "completions_create e (heap w ! messages) = Inr ch"
    and "finish_reason ch = ''tool_calls''"
    and "msg_tool_calls ch = None"
  shows "handle_tool_calls e v [] = (Inr [], v)
       \<and> chat_round e messages w =
           Continue (w\<lparr>model_log := model_log w @ [heap w ! messages],
                       heap := (heap w)[messages := heap w ! messages
                          @ [\<lparr>role = ''assistant'',
                              content = (case msg_content ch of None \<Rightarrow> [] | Some t \<Rightarrow> t),
                              tool_calls = Some [], tool_call_id = None\<rparr>]]\<rparr>)
       \<and> chat_loop e messages w =
           (case chat_round e messages
                   (w\<lparr>model_log := model_log w @ [heap w ! messages],
                      heap := (heap w)[messages := heap w ! messages
                          @ [\<lparr>role = ''assistant'',
                              content = (case msg_content ch of None \<Rightarrow> [] | Some t \<Rightarrow> t),
                              tool_calls = Some [], tool_call_id = None\<rparr>]]\<rparr>) of
              Return r v \<Rightarrow> Some (r, v)
            | Continue v \<Rightarrow> chat_loop e messages v)
       \<and> model_log (world_of (chat_round e messages
                   (w\<lparr>model_log := model_log w @ [heap w ! messages],
                      heap := (heap w)[messages := heap w ! messages
                          @ [\<lparr>role = ''assistant'',
                              content = (case msg_content ch of None \<Rightarrow> [] | Some t \<Rightarrow> t),
                              tool_calls = Some [], tool_call_id = None\<rparr>]]\<rparr>)))
           = model_log w
               @ [heap w ! messages,
                  heap w ! messages
                    @ [\<lparr>role = ''assistant'',
                        content = (case msg_content ch of None \<Rightarrow> [] | Some t \<Rightarrow> t),
                        tool_calls = Some [], tool_call_id = None\<rparr>]]"
proof -
  let ?w2 = "w\<lparr>model_log := model_log w @ [heap w ! messages],
                      heap := (heap w)[messages := heap w ! messages
                          @ [\<lparr>role = ''assistant'',
                              content = (case msg_content ch of None \<Rightarrow> [] | Some t \<Rightarrow> t),
                              tool_calls = Some [], tool_call_id = None\<rparr>]]\<rparr>"
  have h: "handle_tool_calls e v [] = (Inr [], v)" for v
    by (simp add: handle_tool_calls_def)
  have r: "chat_round e messages w = Continue ?w2"
    using assms
    by (simp add: chat_round_def Let_def h list_extend_def list_append_def assistant_message_def)
  from chat_round_logs [of e messages ?w2] assms(1)
  have g: "model_log (world_of (chat_round e messages ?w2))
           = model_log w
               @ [heap w ! messages,
                  heap w ! messages
                    @ [\<lparr>role = ''assistant'',
                        content = (case msg_content ch of None \<Rightarrow> [] | Some t \<Rightarrow> t),
                        tool_calls = Some [], tool_call_id = None\<rparr>]]"
    by simp
  from h r chat_round_unfolds [OF r] g show ?thesis by simp
qed

theorem empty_tool_call_list_is_tolerated_witness:
  "0 < length (heap sample_world)
   \<and> completions_create null_calls_env (heap sample_world ! 0)
       = Inr \<lparr>finish_reason = ''tool_calls'', msg_content = None, msg_tool_calls = None\<rparr>
   \<and> handle_tool_calls null_calls_env sample_world [] = (Inr [], sample_world)
   \<and> chat_round null_calls_env 0 sample_world =
       Continue (sample_world\<lparr>model_log := [sample_history],
                   heap := [sample_history
                      @ [\<lparr>role = ''assistant'', content = [], tool_calls = Some [],
                          tool_call_id = None\<rparr>]]\<rparr>)
   \<and> model_log (world_of (chat_round null_calls_env 0
         (sample_world\<lparr>model_log := [sample_history],
                   heap := [sample_history
                      @ [\<lparr>role = ''assistant'', content = [], tool_calls = Some [],
                          tool_call_id = None\<rparr>]]\<rparr>)))
       = [sample_history,
          sample_history
           @ [\<lparr>role = ''assistant'', content = [], tool_calls = Some [],
                tool_call_id = None\<rparr>]]
   \<and> (\<exists>v. chat_loop null_calls_env 0 sample_world = Some (Inr ''Done.'', v)
         \<and> model_log v =
             [sample_history,
              sample_history
              @ [\<lparr>role = ''assistant'', content = [], tool_calls = Some [],
                   tool_call_id = None\<rparr>]])"
proof -
  have a: "0 < length (heap sample_world)" by (simp add: sample_world_def)
  have b: "completions_create null_calls_env (heap sample_world ! 0)
       = Inr \<lparr>finish_reason = ''tool_calls'', msg_content = None, msg_tool_calls = None\<rparr>"
    by (simp add: null_calls_env_def sample_world_def sample_history_def)
  note t = empty_tool_call_list_is_tolerated [OF a b, where v = sample_world]
  from t have c: "handle_tool_calls null_calls_env sample_world [] = (Inr [], sample_world)
   \<and> chat_round null_calls_env 0 sample_world =
       Continue (sample_world\<lparr>model_log := [sample_history],
                   heap := [sample_history
                      @ [\<lparr>role = ''assistant'', content = [], tool_calls = Some [],
                          tool_call_id = None\<rparr>]]\<rparr>)
   \<and> model_log (world_of (chat_round null_calls_env 0
         (sample_world\<lparr>model_log := [sample_history],
                   heap := [sample_history
                      @ [\<lparr>role = ''assistant'', content = [], tool_calls = Some [],
                          tool_call_id = None\<rparr>]]\<rparr>)))
       = [sample_history,
          sample_history
           @ [\<lparr>role = ''assistant'', content = [], tool_calls = Some [],
                tool_call_id = None\<rparr>]]"
    by (simp add: sample_world_def)
  from t
  have d: "\<exists>v. chat_loop null_calls_env 0 sample_world = Some (Inr ''Done.'', v)
         \<and> model_log v =
             [sample_history,
              sample_history
              @ [\<lparr>role = ''assistant'', content = [], tool_calls = Some [],
                   tool_call_id = None\<rparr>]]"
    by (simp add: sample_world_def sample_history_def chat_round_def null_calls_env_def
                  answer_def Let_def)
  show ?thesis using a b c d by blast
qed

end
